theory Spec2Isabelle
  imports Main "HOL-Library.Word"
begin

section \<open>Machine types\<close>

text \<open>
  Xvisor's \<^verbatim>\<open>unsigned int\<close>, \<^verbatim>\<open>u32\<close> and \<^verbatim>\<open>int\<close> are 32 bits wide on every target.
  Both are modelled by \<open>32 word\<close>: \<open>+\<close> and \<open>-\<close> wrap around, \<open><\<close> and \<open>\<le>\<close> are the
  unsigned comparisons, \<open><s\<close> and \<open>\<le>s\<close> the signed ones, \<open>uint\<close> reads the unsigned and
  \<open>sint\<close> the two's-complement value. Converting between \<^verbatim>\<open>int\<close> and \<^verbatim>\<open>unsigned int\<close> keeps
  the 32 bits, so it is the identity of the model; the two synonyms only record which C type
  an expression has. A pointer is an address, and \<open>None\<close> is the null pointer.
\<close>

type_synonym u32 = "32 word"
type_synonym s32 = "32 word"
type_synonym addr = nat

section \<open>SBI capability constants (cpu\_vcpu\_sbi.h)\<close>

definition CPU_VCPU_SBI_VERSION_MAJOR :: s32 where
  "CPU_VCPU_SBI_VERSION_MAJOR = 0"

definition CPU_VCPU_SBI_VERSION_MINOR :: s32 where
  "CPU_VCPU_SBI_VERSION_MINOR = 3"

definition CPU_VCPU_SBI_IMPID :: s32 where
  "CPU_VCPU_SBI_IMPID = 2"

section \<open>Host IRQ domains (vmm\_host\_irqdomain.c)\<close>

subsection \<open>The domain record\<close>

text \<open>
  Modelled from the spec: the declaration of \<^verbatim>\<open>struct vmm_host_irqdomain\<close>
  (vmm\_host\_irqdomain.h) is not among the sources. The fields are those that
  vmm\_host\_irqdomain.c reads and writes; \<open>base\<close>, \<open>count\<close> and \<open>end\<close> hold 32-bit
  numbers, and every comparison and sum the functions below make with them has an
  \<^verbatim>\<open>unsigned int\<close> operand, so it is an unsigned 32-bit operation whatever the declared
  signedness of the field. The list node \<^verbatim>\<open>head\<close> is represented by the position of the
  record in the registry. The field \<^verbatim>\<open>end\<close> is written \<open>end'\<close>. The device-tree node, the
  private data and the operations table are opaque pointers.
\<close>

record vmm_host_irqdomain =
  of_node :: "addr option"
  base :: u32
  count :: u32
  end' :: u32
  host_data :: "addr option"
  ops :: "addr option"

subsection \<open>The external collaborators\<close>

text \<open>
  The heap allocator (\<^verbatim>\<open>vmm_zalloc\<close>, \<^verbatim>\<open>vmm_free\<close>), the generic interrupt registry
  (\<^verbatim>\<open>vmm_host_irq_get\<close>), the extended-IRQ allocator (\<^verbatim>\<open>vmm_host_irqext_*\<close>) and the
  constants of vmm\_error.h and of the build configuration are not part of
  vmm\_host\_irqdomain.c. They are parameters of the model: an environment \<open>E\<close> gives the
  constants and, for every external function, its effect on the state \<open>'x\<close> of the
  collaborators and the value it returns. A theorem stated for every \<open>E\<close> holds whatever
  the collaborators do.
\<close>

record 'x env =
  CONFIG_HOST_IRQ_COUNT :: s32
  VMM_OK :: s32
  VMM_ENOTAVAIL :: s32
  vmm_zalloc :: "'x \<Rightarrow> addr option \<times> 'x"
  vmm_free :: "addr \<Rightarrow> 'x \<Rightarrow> 'x"
  vmm_host_irq_get :: "u32 \<Rightarrow> 'x \<Rightarrow> addr option"
  vmm_host_irqext_create_mapping :: "u32 \<Rightarrow> 'x \<Rightarrow> s32 \<times> 'x"
  vmm_host_irqext_dispose_mapping :: "u32 \<Rightarrow> 'x \<Rightarrow> s32 \<times> 'x"
  vmm_host_irqext_alloc_region :: "u32 \<Rightarrow> 'x \<Rightarrow> s32 \<times> 'x"

subsection \<open>The registry\<close>

text \<open>
  \<^verbatim>\<open>idctrl.domains\<close> is an intrusive list of the live domain records. The model keeps the
  records in list order, each with its address. The reader/writer lock is not modelled:
  every operation runs from start to end on its own. \<open>extern\<close> is the state of the
  external collaborators.
\<close>

record 'x vmm_host_irqdomain_ctrl =
  domains :: "(addr \<times> vmm_host_irqdomain) list"
  extern :: 'x

subsection \<open>Translation between host and hardware IRQ numbers\<close>

text \<open>
  A function that only reads the fields of \<^verbatim>\<open>*domain\<close> takes the record itself. Both
  functions return an \<^verbatim>\<open>int\<close>: the unsigned difference or sum is returned as the same 32
  bits. \<^verbatim>\<open>vmm_host_irq_get\<close> returns a pointer, tested against null.
  \<^verbatim>\<open>vmm_host_irqdomain_match\<close> and \<^verbatim>\<open>vmm_host_irqdomain_debug_dump\<close> change nothing and no
  theorem below is about them: they are left out.
\<close>

definition vmm_host_irqdomain_to_hwirq ::
  "'x env \<Rightarrow> vmm_host_irqdomain \<Rightarrow> u32 \<Rightarrow> s32" where
  "vmm_host_irqdomain_to_hwirq E domain hirq =
     (if hirq < base domain \<or> hirq > end' domain then VMM_ENOTAVAIL E
      else hirq - base domain)"

definition vmm_host_irqdomain_find_mapping ::
  "'x env \<Rightarrow> vmm_host_irqdomain \<Rightarrow> u32 \<Rightarrow> 'x \<Rightarrow> s32" where
  "vmm_host_irqdomain_find_mapping E domain hwirq x =
     (if hwirq > count domain then - 1
      else if vmm_host_irq_get E (base domain + hwirq) x \<noteq> None then base domain + hwirq
      else - 1)"

subsection \<open>Lookup of the domain of a host IRQ\<close>

text \<open>
  \<^verbatim>\<open>list_for_each_entry\<close> walks the registry from its head; the scan returns the address
  of the first record that passes the test, or the null pointer. The diagnostic line
  printed when nothing is found is not modelled.
\<close>

fun domain_scan :: "(addr \<times> vmm_host_irqdomain) list \<Rightarrow> u32 \<Rightarrow> addr option" where
  "domain_scan [] hirq = None"
| "domain_scan ((p, domain) # rest) hirq =
     (if hirq > base domain \<and> hirq < end' domain then Some p
      else domain_scan rest hirq)"

definition vmm_host_irqdomain_get :: "'x vmm_host_irqdomain_ctrl \<Rightarrow> u32 \<Rightarrow> addr option" where
  "vmm_host_irqdomain_get s hirq = domain_scan (domains s) hirq"

subsection \<open>Creating and disposing mappings\<close>

text \<open>
  \<open>vmm_host_irqdomain_create_mapping\<close> takes the record its argument points to, or
  \<open>None\<close> for the null pointer. The local \<^verbatim>\<open>hirq\<close> is an \<^verbatim>\<open>int\<close>: the tests
  \<^verbatim>\<open>hirq >= 0\<close> and \<^verbatim>\<open>hirq < 0\<close> are signed.
\<close>

definition vmm_host_irqdomain_create_mapping ::
  "'x env \<Rightarrow> vmm_host_irqdomain option \<Rightarrow> u32 \<Rightarrow> 'x \<Rightarrow> s32 \<times> 'x" where
  "vmm_host_irqdomain_create_mapping E domain hwirq x =
     (case domain of
        None \<Rightarrow> (VMM_ENOTAVAIL E, x)
      | Some d \<Rightarrow>
          if hwirq > count d then (VMM_ENOTAVAIL E, x)
          else
            let hirq = vmm_host_irqdomain_find_mapping E d hwirq x in
            if 0 \<le>s hirq then (hirq, x)
            else
              (case vmm_host_irqext_create_mapping E (base d + hwirq) x of
                 (hirq', x') \<Rightarrow> (if hirq' <s 0 then hirq' else base d + hwirq, x')))"

definition vmm_host_irqdomain_dispose_mapping ::
  "'x env \<Rightarrow> u32 \<Rightarrow> 'x vmm_host_irqdomain_ctrl \<Rightarrow> s32 \<times> 'x vmm_host_irqdomain_ctrl" where
  "vmm_host_irqdomain_dispose_mapping E hirq s =
     (case vmm_host_irqdomain_get s hirq of
        None \<Rightarrow> (VMM_ENOTAVAIL E, s)
      | Some domain \<Rightarrow>
          (case vmm_host_irqext_dispose_mapping E hirq (extern s) of
             (rc, x') \<Rightarrow> (rc, s\<lparr>extern := x'\<rparr>)))"

subsection \<open>Adding a domain\<close>

text \<open>
  \<^verbatim>\<open>base\<close> is an \<^verbatim>\<open>int\<close> and \<^verbatim>\<open>size\<close> an \<^verbatim>\<open>unsigned int\<close>. In the capacity test,
  \<^verbatim>\<open>base >= 0\<close> and \<^verbatim>\<open>CONFIG_HOST_IRQ_COUNT <= base\<close> compare two \<^verbatim>\<open>int\<close>s, and
  \<^verbatim>\<open>CONFIG_HOST_IRQ_COUNT <= (base+size)\<close> compares unsigned, the sum \<^verbatim>\<open>base+size\<close> being
  an \<^verbatim>\<open>unsigned int\<close> that wraps around. \<open>populate\<close> is the block of field assignments,
  \<open>list_add_tail\<close> the insertion at the tail of \<^verbatim>\<open>idctrl.domains\<close>.
\<close>

definition populate ::
  "addr option \<Rightarrow> s32 \<Rightarrow> u32 \<Rightarrow> addr option \<Rightarrow> addr option \<Rightarrow> vmm_host_irqdomain" where
  "populate node pos size' opsp hdata =
     \<lparr>of_node = node, base = pos, count = size', end' = pos + size',
      host_data = hdata, ops = opsp\<rparr>"

definition list_add_tail ::
  "addr \<Rightarrow> vmm_host_irqdomain \<Rightarrow> (addr \<times> vmm_host_irqdomain) list \<Rightarrow>
   (addr \<times> vmm_host_irqdomain) list" where
  "list_add_tail p d ds = ds @ [(p, d)]"

definition vmm_host_irqdomain_add ::
  "'x env \<Rightarrow> addr option \<Rightarrow> s32 \<Rightarrow> u32 \<Rightarrow> addr option \<Rightarrow> addr option \<Rightarrow>
   'x vmm_host_irqdomain_ctrl \<Rightarrow> addr option \<times> 'x vmm_host_irqdomain_ctrl" where
  "vmm_host_irqdomain_add E node base' size' opsp hdata s =
     (if 0 \<le>s base' \<and>
         (CONFIG_HOST_IRQ_COUNT E \<le>s base' \<or> CONFIG_HOST_IRQ_COUNT E \<le> base' + size')
      then (None, s)
      else
        (case vmm_zalloc E (extern s) of
           (None, x1) \<Rightarrow> (None, s\<lparr>extern := x1\<rparr>)
         | (Some newdomain, x1) \<Rightarrow>
             if base' <s 0 then
               (case vmm_host_irqext_alloc_region E size' x1 of
                  (pos, x2) \<Rightarrow>
                    if pos <s 0 then (None, s\<lparr>extern := vmm_free E newdomain x2\<rparr>)
                    else
                      (Some newdomain,
                       \<lparr>domains = list_add_tail newdomain
                          (populate node pos size' opsp hdata) (domains s),
                        extern = x2\<rparr>))
             else
               (Some newdomain,
                \<lparr>domains = list_add_tail newdomain
                   (populate node base' size' opsp hdata) (domains s),
                 extern = x1\<rparr>)))"

subsection \<open>Removing a domain\<close>

text \<open>
  The disposal loop \<^verbatim>\<open>for (pos = domain->base; pos < domain->end; ++pos)\<close> runs on an
  \<^verbatim>\<open>unsigned int\<close>; it ignores what \<^verbatim>\<open>vmm_host_irqext_dispose_mapping\<close> returns and keeps
  only its effect. It ends, since \<open>pos\<close> grows towards \<open>e\<close> without wrapping.
\<close>

function dispose_range :: "'x env \<Rightarrow> u32 \<Rightarrow> u32 \<Rightarrow> 'x \<Rightarrow> 'x" where
  "dispose_range E pos e x =
     (if pos < e
      then dispose_range E (pos + 1) e (snd (vmm_host_irqext_dispose_mapping E pos x))
      else x)"
  by pat_completeness auto
termination
proof (relation "measure (\<lambda>(E, pos, e, x). unat e - unat pos)")
  show "wf (measure (\<lambda>(E :: 'x env, pos :: u32, e :: u32, x :: 'x). unat e - unat pos))"
    by simp
next
  fix E :: "'x env" and pos e :: u32 and x :: 'x
  assume lt: "pos < e"
  then have small: "unat pos < unat e"
    by (simp add: word_less_nat_alt)
  have "unat e < 2 ^ 32"
    using unsigned_less [of e, where ?'a = nat] by simp
  with small have "unat pos + 1 < 2 ^ 32"
    by simp
  then have "unat (pos + 1) = Suc (unat pos)"
    by (simp add: unat_word_ariths)
  moreover note small
  ultimately show "((E, pos + 1, e, snd (vmm_host_irqext_dispose_mapping E pos x)), (E, pos, e, x))
      \<in> measure (\<lambda>(E, pos, e, x). unat e - unat pos)"
    by simp
qed

declare dispose_range.simps [simp del]

text \<open>
  \<^verbatim>\<open>list_del\<close> unlinks one node, the record at address \<open>p\<close>. A pointer that is neither
  null nor the address of a live record makes the C function read freed or foreign memory:
  its behaviour is undefined, and the model returns \<open>None\<close> there.
\<close>

fun list_del ::
  "addr \<Rightarrow> (addr \<times> vmm_host_irqdomain) list \<Rightarrow> (addr \<times> vmm_host_irqdomain) list" where
  "list_del p [] = []"
| "list_del p ((q, d) # rest) = (if q = p then rest else (q, d) # list_del p rest)"

definition vmm_host_irqdomain_remove ::
  "'x env \<Rightarrow> addr option \<Rightarrow> 'x vmm_host_irqdomain_ctrl \<Rightarrow>
   'x vmm_host_irqdomain_ctrl option" where
  "vmm_host_irqdomain_remove E domain s =
     (case domain of
        None \<Rightarrow> Some s
      | Some p \<Rightarrow>
          (case map_of (domains s) p of
             None \<Rightarrow> None
           | Some d \<Rightarrow>
               Some \<lparr>domains = list_del p (domains s),
                     extern = vmm_free E p (dispose_range E (base d) (end' d) (extern s))\<rparr>))"

subsection \<open>Initialisation\<close>

definition vmm_host_irqdomain_init ::
  "'x env \<Rightarrow> 'x vmm_host_irqdomain_ctrl \<Rightarrow> s32 \<times> 'x vmm_host_irqdomain_ctrl" where
  "vmm_host_irqdomain_init E s = (VMM_OK E, s\<lparr>domains := []\<rparr>)"

section \<open>A simulated platform\<close>

text \<open>
  Modelled from the spec: the external collaborators of the domain manager (the heap
  allocator, the generic interrupt registry and the extended-IRQ allocator, with the
  constants \<^verbatim>\<open>CONFIG_HOST_IRQ_COUNT\<close>, \<^verbatim>\<open>VMM_OK\<close> and \<^verbatim>\<open>VMM_ENOTAVAIL\<close>) are not among the
  sources. The spec gives their interface: \<open>alloc_region(size) -> base | failure\<close>,
  \<open>create_mapping(global_irq) -> hirq | failure\<close>, \<open>dispose_mapping(hirq) -> Ok | failure\<close>
  and \<open>get(irq_number) -> irq_record | absent\<close>, where \<open>get\<close> tells whether a host IRQ
  has a live mapping. \<open>sim\<close> is one platform with this interface, on which the operations
  can be run: it keeps the host IRQ numbers that have a live record, hands out record
  addresses and extended IRQ regions in increasing order, and writes down every call it
  receives. \<open>vmm_zalloc\<close> fails when no record is left; \<open>alloc_region\<close> fails when the
  region would pass \<open>2^31\<close>, \<open>create_mapping\<close> when the number is negative as an \<^verbatim>\<open>int\<close>,
  \<open>dispose_mapping\<close> when the number has no live record, each with the value \<open>-1\<close>.
  Its constants are sample values: a capacity of 1024 host IRQs, \<open>VMM_OK = 0\<close> and
  \<open>VMM_ENOTAVAIL = -3\<close>. \<open>boot\<close> is the platform before any call, \<open>started\<close> the registry after
  \<open>vmm_host_irqdomain_init\<close>; the states after it are reached by the operations named in
  their definitions.
\<close>

datatype call =
  Zalloc | Free addr | Alloc_region u32 | Create_mapping u32 | Dispose_mapping u32

record platform =
  irqs :: "u32 list"
  heap_next :: addr
  heap_left :: nat
  region_next :: u32
  calls :: "call list"

definition sim_zalloc :: "platform \<Rightarrow> addr option \<times> platform" where
  "sim_zalloc x =
     (if heap_left x = 0 then (None, x\<lparr>calls := calls x @ [Zalloc]\<rparr>)
      else (Some (heap_next x),
            x\<lparr>heap_next := Suc (heap_next x), heap_left := heap_left x - 1,
              calls := calls x @ [Zalloc]\<rparr>))"

definition sim_free :: "addr \<Rightarrow> platform \<Rightarrow> platform" where
  "sim_free p x = x\<lparr>heap_left := Suc (heap_left x), calls := calls x @ [Free p]\<rparr>"

definition sim_irq_get :: "u32 \<Rightarrow> platform \<Rightarrow> addr option" where
  "sim_irq_get n x = (if n \<in> set (irqs x) then Some (unat n) else None)"

definition sim_create_mapping :: "u32 \<Rightarrow> platform \<Rightarrow> s32 \<times> platform" where
  "sim_create_mapping n x =
     (if n <s 0 then (- 1, x\<lparr>calls := calls x @ [Create_mapping n]\<rparr>)
      else (n, x\<lparr>irqs := n # irqs x, calls := calls x @ [Create_mapping n]\<rparr>))"

definition sim_dispose_mapping :: "u32 \<Rightarrow> platform \<Rightarrow> s32 \<times> platform" where
  "sim_dispose_mapping n x =
     (if n \<in> set (irqs x)
      then (0, x\<lparr>irqs := removeAll n (irqs x), calls := calls x @ [Dispose_mapping n]\<rparr>)
      else (- 1, x\<lparr>calls := calls x @ [Dispose_mapping n]\<rparr>))"

definition sim_alloc_region :: "u32 \<Rightarrow> platform \<Rightarrow> s32 \<times> platform" where
  "sim_alloc_region size' x =
     (if 2 ^ 31 \<le> uint (region_next x) + uint size'
      then (- 1, x\<lparr>calls := calls x @ [Alloc_region size']\<rparr>)
      else (region_next x,
            x\<lparr>region_next := region_next x + size',
              calls := calls x @ [Alloc_region size']\<rparr>))"

definition sim :: "platform env" where
  "sim =
     \<lparr>CONFIG_HOST_IRQ_COUNT = 1024, VMM_OK = 0, VMM_ENOTAVAIL = - 3,
      vmm_zalloc = sim_zalloc, vmm_free = sim_free, vmm_host_irq_get = sim_irq_get,
      vmm_host_irqext_create_mapping = sim_create_mapping,
      vmm_host_irqext_dispose_mapping = sim_dispose_mapping,
      vmm_host_irqext_alloc_region = sim_alloc_region\<rparr>"

definition boot :: platform where
  "boot = \<lparr>irqs = [], heap_next = 1, heap_left = 4, region_next = 1024, calls = []\<rparr>"

definition started :: "platform vmm_host_irqdomain_ctrl" where
  "started = snd (vmm_host_irqdomain_init sim \<lparr>domains = [], extern = boot\<rparr>)"

definition first_added :: "platform vmm_host_irqdomain_ctrl" where
  "first_added = snd (vmm_host_irqdomain_add sim None 10 10 None None started)"

definition second_added :: "platform vmm_host_irqdomain_ctrl" where
  "second_added = snd (vmm_host_irqdomain_add sim None 15 15 None None first_added)"

definition third_added :: "platform vmm_host_irqdomain_ctrl" where
  "third_added = snd (vmm_host_irqdomain_add sim None 40 10 None None second_added)"

definition one_mapped :: "platform vmm_host_irqdomain_ctrl" where
  "one_mapped =
     snd (vmm_host_irqdomain_add sim None 300 4 None None first_added)
       \<lparr>extern := snd (vmm_host_irqdomain_create_mapping sim
           (Some (populate None 300 4 None None)) 1
           (extern (snd (vmm_host_irqdomain_add sim None 300 4 None None first_added))))\<rparr>"

definition bases_mapped :: "platform vmm_host_irqdomain_ctrl" where
  "bases_mapped =
     third_added
       \<lparr>extern := snd (vmm_host_irqdomain_create_mapping sim
           (Some (populate None 40 10 None None)) 0
           (snd (vmm_host_irqdomain_create_mapping sim
              (Some (populate None 15 15 None None)) 0 (extern third_added))))\<rparr>"

definition out_of_memory :: "platform vmm_host_irqdomain_ctrl" where
  "out_of_memory = started\<lparr>extern := boot\<lparr>heap_left := 0\<rparr>\<rparr>"

section \<open>Notions used by the theorems\<close>

text \<open>
  The host IRQ numbers \<open>b\<close>, \<open>b + 1\<close>, ... below \<open>e\<close>, in increasing order: the numbers
  of the half-open range from \<open>b\<close> to \<open>e\<close>.
\<close>

definition irq_numbers :: "u32 \<Rightarrow> u32 \<Rightarrow> u32 list" where
  "irq_numbers b e = map word_of_nat [unat b..<unat e]"

text \<open>
  Modelled from the spec: what binds the extended-IRQ allocator to the generic interrupt
  registry, neither of which is among the sources. The spec has the allocator's
  \<open>create_mapping\<close> "materialize the mapping" and the registry's \<open>get\<close> tell "whether a
  host IRQ already exists": after a call of \<^verbatim>\<open>vmm_host_irqext_create_mapping\<close> that
  returns no error (a value that is not negative), \<^verbatim>\<open>vmm_host_irq_get\<close> finds a record at
  that number.
\<close>

definition created_is_live :: "'x env \<Rightarrow> bool" where
  "created_is_live E \<longleftrightarrow>
     (\<forall>n x. 0 \<le>s fst (vmm_host_irqext_create_mapping E n x) \<longrightarrow>
        vmm_host_irq_get E n (snd (vmm_host_irqext_create_mapping E n x)) \<noteq> None)"

text \<open>
  Modelled from the spec: the range of the host IRQ numbers that the generic interrupt
  registry, which is not among the sources, holds a record for. The spec has the domain
  manager return \<open>hirq | NotAvailable | allocator error\<close>, a host IRQ number or a negative
  error code in one \<^verbatim>\<open>int\<close>, and has host IRQ numbers start at a base \<open>\<ge> 0\<close>: a host IRQ
  number with a live record is not negative as an \<^verbatim>\<open>int\<close>.
\<close>

definition live_fit_int :: "'x env \<Rightarrow> 'x \<Rightarrow> bool" where
  "live_fit_int E x \<longleftrightarrow> (\<forall>n. vmm_host_irq_get E n x \<noteq> None \<longrightarrow> 0 \<le>s n)"

text \<open>
  The spec's words for the capacity test of \<open>add\<close>, for a requested base that is not
  negative: "the requested range would exceed the fixed host-IRQ capacity", the capacity
  being the bound that "every domain's end must be" at most. The range from \<open>base\<close> to
  \<open>base + size\<close> exceeds the capacity when its end, computed without wrap-around, is
  greater than \<^verbatim>\<open>CONFIG_HOST_IRQ_COUNT\<close>.
\<close>

definition exceeds_capacity :: "'x env \<Rightarrow> s32 \<Rightarrow> u32 \<Rightarrow> bool" where
  "exceeds_capacity E base' size' \<longleftrightarrow>
     sint (CONFIG_HOST_IRQ_COUNT E) < sint base' + uint size'"

text \<open>
  Two domains have disjoint ranges when the half-open ranges from \<open>base\<close> to \<open>end\<close> share
  no host IRQ number: one of them is empty, or one ends where the other begins or before.
\<close>

definition ranges_disjoint :: "vmm_host_irqdomain \<Rightarrow> vmm_host_irqdomain \<Rightarrow> bool" where
  "ranges_disjoint a b \<longleftrightarrow>
     end' a \<le> base a \<or> end' b \<le> base b \<or> end' a \<le> base b \<or> end' b \<le> base a"

text \<open>
  The registry states reached from \<open>vmm_host_irqdomain_init\<close> by the operations of the
  domain manager, when every range that \<open>vmm_host_irqdomain_add\<close> is given (the caller's
  base, or the base assigned by the allocator) is disjoint from the ranges of the domains
  that are live at that moment. The record that \<open>add\<close> links is the last of the registry.
\<close>

inductive disjoint_run :: "'x env \<Rightarrow> 'x vmm_host_irqdomain_ctrl \<Rightarrow> bool"
  for E :: "'x env" where
  init: "disjoint_run E (snd (vmm_host_irqdomain_init E s))"
| add: "disjoint_run E s \<Longrightarrow>
     (fst (vmm_host_irqdomain_add E node base' size' opsp hdata s) \<noteq> None \<longrightarrow>
        (\<forall>e \<in> set (domains s). ranges_disjoint (snd e)
           (snd (last (domains (snd (vmm_host_irqdomain_add E node base' size' opsp hdata s))))))) \<Longrightarrow>
     disjoint_run E (snd (vmm_host_irqdomain_add E node base' size' opsp hdata s))"
| remove: "disjoint_run E s \<Longrightarrow> vmm_host_irqdomain_remove E domain s = Some s' \<Longrightarrow>
     disjoint_run E s'"
| create_mapping: "disjoint_run E s \<Longrightarrow>
     disjoint_run E
       (s\<lparr>extern := snd (vmm_host_irqdomain_create_mapping E domain hwirq (extern s))\<rparr>)"
| dispose_mapping: "disjoint_run E s \<Longrightarrow>
     disjoint_run E (snd (vmm_host_irqdomain_dispose_mapping E hirq s))"

section \<open>Evaluation on the simulated platform\<close>

lemmas sim_defs = sim_def sim_zalloc_def sim_free_def sim_irq_get_def sim_create_mapping_def
  sim_dispose_mapping_def sim_alloc_region_def boot_def

lemma started_eval: "started = \<lparr>domains = [], extern = boot\<rparr>"
  by (simp add: started_def vmm_host_irqdomain_init_def)

lemmas add_eval = vmm_host_irqdomain_add_def populate_def list_add_tail_def
  word_sle_eq word_sless_alt

lemma first_added_eval:
  "first_added =
     \<lparr>domains = [(1, populate None 10 10 None None)],
      extern = boot\<lparr>heap_next := 2, heap_left := 3, calls := [Zalloc]\<rparr>\<rparr>"
  by (simp add: first_added_def started_eval add_eval sim_defs)

lemma second_added_eval:
  "second_added =
     \<lparr>domains = [(1, populate None 10 10 None None), (2, populate None 15 15 None None)],
      extern = boot\<lparr>heap_next := 3, heap_left := 2, calls := [Zalloc, Zalloc]\<rparr>\<rparr>"
  by (simp add: second_added_def first_added_eval add_eval sim_defs)

lemma third_added_eval:
  "third_added =
     \<lparr>domains = [(1, populate None 10 10 None None), (2, populate None 15 15 None None),
                 (3, populate None 40 10 None None)],
      extern = boot\<lparr>heap_next := 4, heap_left := 1, calls := [Zalloc, Zalloc, Zalloc]\<rparr>\<rparr>"
  by (simp add: third_added_def second_added_eval add_eval sim_defs)

lemmas mapping_eval = vmm_host_irqdomain_create_mapping_def vmm_host_irqdomain_find_mapping_def

lemma one_mapped_eval:
  "one_mapped =
     \<lparr>domains = [(1, populate None 10 10 None None), (2, populate None 300 4 None None)],
      extern = boot\<lparr>irqs := [301], heap_next := 3, heap_left := 2,
        calls := [Zalloc, Zalloc, Create_mapping 301]\<rparr>\<rparr>"
  by (simp add: one_mapped_def first_added_eval add_eval mapping_eval sim_defs)

lemma irq_numbers_300: "irq_numbers 300 304 = [300, 301, 302, 303]"
  by (simp add: irq_numbers_def)

lemma bases_mapped_eval:
  "bases_mapped =
     \<lparr>domains = [(1, populate None 10 10 None None), (2, populate None 15 15 None None),
                 (3, populate None 40 10 None None)],
      extern = boot\<lparr>irqs := [40, 15], heap_next := 4, heap_left := 1,
        calls := [Zalloc, Zalloc, Zalloc, Create_mapping 15, Create_mapping 40]\<rparr>\<rparr>"
  by (simp add: bases_mapped_def third_added_eval mapping_eval populate_def sim_defs
      word_sle_eq word_sless_alt)

lemmas dispose_eval = vmm_host_irqdomain_dispose_mapping_def vmm_host_irqdomain_get_def

lemma sim_created_is_live: "created_is_live sim"
  by (simp add: created_is_live_def sim_defs word_sle_eq word_sless_alt)

lemma second_range_eval:
  "snd (vmm_host_irqdomain_add sim None 300 4 None None first_added) =
     \<lparr>domains = [(1, populate None 10 10 None None), (2, populate None 300 4 None None)],
      extern = boot\<lparr>heap_next := 3, heap_left := 2, calls := [Zalloc, Zalloc]\<rparr>\<rparr>"
  by (simp add: first_added_eval add_eval sim_defs)

lemma one_mapped_run: "disjoint_run sim one_mapped"
proof -
  have "disjoint_run sim started"
    unfolding started_def by (rule disjoint_run.init)
  then have "disjoint_run sim first_added"
    unfolding first_added_def by (rule disjoint_run.add) (simp add: started_eval)
  then have "disjoint_run sim (snd (vmm_host_irqdomain_add sim None 300 4 None None first_added))"
  proof (rule disjoint_run.add)
    show "fst (vmm_host_irqdomain_add sim None 300 4 None None first_added) \<noteq> None \<longrightarrow>
      (\<forall>e\<in>set (domains first_added).
          ranges_disjoint (snd e)
           (snd (last (domains
              (snd (vmm_host_irqdomain_add sim None 300 4 None None first_added))))))"
      by (simp only: second_range_eval)
        (simp add: first_added_eval populate_def ranges_disjoint_def)
  qed
  then show ?thesis
    unfolding one_mapped_def by (rule disjoint_run.create_mapping)
qed

lemma sim_live_fit_int: "live_fit_int sim (boot\<lparr>irqs := [103]\<rparr>)"
  by (simp add: live_fit_int_def sim_defs word_sle_eq)

section \<open>The disposal loop\<close>

lemma unat_succ: 
  fixes pos e :: u32
  assumes "pos < e"
  shows "unat (pos + 1) = Suc (unat pos)"
proof -
  from assms have small: "unat pos < unat e"
    by (simp add: word_less_nat_alt)
  have "unat e < 2 ^ 32"
    using unsigned_less [of e, where ?'a = nat] by simp
  with small have "unat pos + 1 < 2 ^ 32"
    by simp
  then show ?thesis
    by (simp add: unat_word_ariths)
qed

lemma irq_numbers_step:
  assumes "pos < e"
  shows "irq_numbers pos e = pos # irq_numbers (pos + 1) e"
proof -
  from assms have "unat pos < unat e"
    by (simp add: word_less_nat_alt)
  then have "[unat pos..<unat e] = unat pos # [Suc (unat pos)..<unat e]"
    by (rule upt_conv_Cons)
  with assms show ?thesis
    by (simp add: irq_numbers_def unat_succ)
qed

lemma irq_numbers_empty: "\<not> pos < e \<Longrightarrow> irq_numbers pos e = []"
  by (simp add: irq_numbers_def word_less_nat_alt)

lemma dispose_range_fold:
  "dispose_range E pos e x =
     foldl (\<lambda>x n. snd (vmm_host_irqext_dispose_mapping E n x)) x (irq_numbers pos e)"
proof (induction E pos e x rule: dispose_range.induct)
  case (1 E pos e x)
  show ?case
  proof (cases "pos < e")
    case True
    with 1 show ?thesis
      by (subst dispose_range.simps) (simp add: irq_numbers_step)
  next
    case False
    then show ?thesis
      by (subst dispose_range.simps) (simp add: irq_numbers_empty)
  qed
qed

lemma set_irq_numbers: "set (irq_numbers b e) = {b..<e}"
proof (rule set_eqI)
  fix n :: u32
  show "n \<in> set (irq_numbers b e) \<longleftrightarrow> n \<in> {b..<e}"
  proof
    assume "n \<in> set (irq_numbers b e)"
    then obtain k where k: "unat b \<le> k" "k < unat e" "n = word_of_nat k"
      by (auto simp add: irq_numbers_def)
    have "unat e < 2 ^ 32"
      using unsigned_less [of e, where ?'a = nat] by simp
    with k have "unat n = k"
      by (simp add: unat_of_nat)
    with k show "n \<in> {b..<e}"
      by (simp add: word_le_nat_alt word_less_nat_alt)
  next
    assume "n \<in> {b..<e}"
    then have "unat n \<in> set [unat b..<unat e]"
      by (simp add: word_le_nat_alt word_less_nat_alt)
    then have "word_of_nat (unat n) \<in> set (irq_numbers b e)"
      unfolding irq_numbers_def set_map by (rule imageI)
    then show "n \<in> set (irq_numbers b e)"
      by simp
  qed
qed

lemma sorted_irq_numbers: "sorted_wrt (<) (irq_numbers b e)"
proof -
  have bound: "unat e < 2 ^ 32"
    using unsigned_less [of e, where ?'a = nat] by simp
  have "sorted_wrt (\<lambda>i j. (word_of_nat i :: u32) < word_of_nat j) [unat b..<unat e]"
  proof (rule sorted_wrt_mono_rel [of _ "(<)"])
    fix i j :: nat
    assume "i \<in> set [unat b..<unat e]" "j \<in> set [unat b..<unat e]" "i < j"
    with bound show "(word_of_nat i :: u32) < word_of_nat j"
      by (simp add: word_less_nat_alt unat_of_nat)
  next
    show "sorted_wrt (<) [unat b..<unat e]"
      by simp
  qed
  then show ?thesis
    by (simp add: irq_numbers_def sorted_wrt_map)
qed

section \<open>The registry scan\<close>

lemma domain_scan_find:
  "domain_scan ds hirq =
     map_option fst (find (\<lambda>e. base (snd e) < hirq \<and> hirq < end' (snd e)) ds)"
  by (induction ds hirq rule: domain_scan.induct) simp_all

lemma domain_scan_None:
  "domain_scan ds hirq = None \<longleftrightarrow>
     (\<forall>e \<in> set ds. \<not> (base (snd e) < hirq \<and> hirq < end' (snd e)))"
  by (auto simp add: domain_scan_find find_None_iff)

section \<open>Signed and unsigned readings\<close>

lemma nonneg_sint_uint:
  fixes c :: s32
  assumes "0 \<le>s c"
  shows "sint c = uint c"
proof -
  from assms have "0 \<le> sint c"
    by (simp add: word_sle_eq)
  moreover have "sint c < 2 ^ 31"
    using sint_lt [of c] by simp
  ultimately have "take_bit 32 (sint c) = sint c"
    by (simp add: take_bit_int_eq_self)
  then show ?thesis
    using uint_sint [of c] by simp
qed

lemma capacity_guard:
  fixes c b n :: s32
  assumes "0 \<le>s c" "0 \<le>s b" "uint b + uint n < 2 ^ 32"
  shows "(c \<le>s b \<or> c \<le> b + n) \<longleftrightarrow> sint c \<le> sint b + uint n"
proof -
  from assms(1) have c: "sint c = uint c"
    by (rule nonneg_sint_uint)
  from assms(2) have b: "sint b = uint b"
    by (rule nonneg_sint_uint)
  from assms(3) have sum: "uint (b + n) = uint b + uint n"
    by (simp add: uint_add_lem [THEN iffD1])
  have "uint c \<le> uint b \<Longrightarrow> uint c \<le> uint b + uint n"
    using uint_ge_0 [of n] by linarith
  with c b sum show ?thesis
    by (auto simp add: word_sle_eq word_le_def)
qed

lemma signs: "base' <s 0 \<longleftrightarrow> \<not> 0 \<le>s (base' :: s32)"
  by (auto simp add: word_sle_eq word_sless_alt)

section \<open>Disjoint ranges\<close>

lemma ranges_disjoint_sets:
  "ranges_disjoint a b \<longleftrightarrow> {base a..<end' a} \<inter> {base b..<end' b} = {}"
proof
  assume "ranges_disjoint a b"
  then show "{base a..<end' a} \<inter> {base b..<end' b} = {}"
    by (auto simp add: ranges_disjoint_def)
next
  assume empty: "{base a..<end' a} \<inter> {base b..<end' b} = {}"
  show "ranges_disjoint a b"
  proof (rule ccontr)
    assume "\<not> ranges_disjoint a b"
    then have "max (base a) (base b) \<in> {base a..<end' a} \<inter> {base b..<end' b}"
      by (auto simp add: ranges_disjoint_def max_def)
    with empty show False
      by simp
  qed
qed

lemma ranges_disjoint_sym: "ranges_disjoint a b \<Longrightarrow> ranges_disjoint b a"
  by (auto simp add: ranges_disjoint_def)

lemma set_list_del: "set (list_del p ds) \<subseteq> set ds"
  by (induction p ds rule: list_del.induct) auto

lemma sorted_wrt_list_del: "sorted_wrt P ds \<Longrightarrow> sorted_wrt P (list_del p ds)"
proof (induction ds)
  case Nil
  then show ?case by simp
next
  case (Cons e ds)
  obtain q d where e: "e = (q, d)"
    by (cases e)
  from Cons show ?case
    using set_list_del [of p ds] by (auto simp add: e)
qed

lemma add_domains:
  "domains (snd (vmm_host_irqdomain_add E node base' size' opsp hdata s)) = domains s
   \<and> fst (vmm_host_irqdomain_add E node base' size' opsp hdata s) = None
   \<or> (\<exists>e. domains (snd (vmm_host_irqdomain_add E node base' size' opsp hdata s)) =
          domains s @ [e])
     \<and> fst (vmm_host_irqdomain_add E node base' size' opsp hdata s) \<noteq> None"
  by (cases "vmm_zalloc E (extern s)"; cases "fst (vmm_zalloc E (extern s))";
      cases "vmm_host_irqext_alloc_region E size' (snd (vmm_zalloc E (extern s)))")
    (auto simp add: vmm_host_irqdomain_add_def list_add_tail_def)

lemma remove_domains:
  "vmm_host_irqdomain_remove E domain s = Some s' \<Longrightarrow>
     domains s' = domains s \<or> (\<exists>p. domains s' = list_del p (domains s))"
  by (auto simp add: vmm_host_irqdomain_remove_def split: option.splits)

lemma dispose_mapping_domains:
  "domains (snd (vmm_host_irqdomain_dispose_mapping E hirq s)) = domains s"
  by (simp add: vmm_host_irqdomain_dispose_mapping_def split: option.split prod.split)

lemma disjoint_run_sorted:
  "disjoint_run E s \<Longrightarrow>
     sorted_wrt (\<lambda>a b. ranges_disjoint (snd a) (snd b)) (domains s)"
proof (induction rule: disjoint_run.induct)
  case (init s)
  then show ?case
    by (simp add: vmm_host_irqdomain_init_def)
next
  case (add s node base' size' opsp hdata)
  let ?s' = "snd (vmm_host_irqdomain_add E node base' size' opsp hdata s)"
  from add_domains [of E node base' size' opsp hdata s] show ?case
  proof (elim disjE conjE exE)
    assume "domains ?s' = domains s"
    with add.IH show ?thesis
      by simp
  next
    fix e
    assume grown: "domains ?s' = domains s @ [e]"
      and "fst (vmm_host_irqdomain_add E node base' size' opsp hdata s) \<noteq> None"
    with add.hyps(2) have "\<forall>f \<in> set (domains s). ranges_disjoint (snd f) (snd e)"
      by simp
    with add.IH grown show ?thesis
      by (simp add: sorted_wrt_append)
  qed
next
  case (remove s domain s')
  from remove_domains [OF remove.hyps(2)] remove.IH show ?case
    by (auto simp add: sorted_wrt_list_del)
next
  case (create_mapping s domain hwirq)
  then show ?case
    by simp
next
  case (dispose_mapping s hirq)
  then show ?case
    by (simp add: dispose_mapping_domains)
qed

section \<open>The SBI constants\<close>


text \<open>
  C8. The SBI capability constants have the values 0 (major version), 3 (minor version)
  and 2 (implementation ID), as 32-bit patterns and as signed numbers.
\<close>

theorem sbi_constants_exact:
  "CPU_VCPU_SBI_VERSION_MAJOR = 0 \<and> CPU_VCPU_SBI_VERSION_MINOR = 3 \<and> CPU_VCPU_SBI_IMPID = 2
   \<and> sint CPU_VCPU_SBI_VERSION_MAJOR = 0 \<and> sint CPU_VCPU_SBI_VERSION_MINOR = 3
   \<and> sint CPU_VCPU_SBI_IMPID = 2"
  by (simp add: CPU_VCPU_SBI_VERSION_MAJOR_def CPU_VCPU_SBI_VERSION_MINOR_def
      CPU_VCPU_SBI_IMPID_def)

section \<open>Translation of a host IRQ number\<close>

text \<open>
  C1. \<open>vmm_host_irqdomain_to_hwirq\<close> returns \<open>hirq - base\<close> for every \<open>hirq\<close> with
  \<open>base \<le> hirq \<le> end\<close>, the upper bound included, and the difference is the exact one: it
  does not wrap. It returns \<open>VMM_ENOTAVAIL\<close> for every \<open>hirq < base\<close> and every
  \<open>hirq > end\<close>. For a domain with base 100 and count 8, whose end is 108, it returns \<open>k\<close>
  at \<open>100 + k\<close> for every \<open>k\<close> from 0 to 8, and \<open>VMM_ENOTAVAIL\<close> at 109 and at every
  number below 100.
\<close>

theorem to_hwirq_in_and_out_of_range:
  "(base d \<le> hirq \<and> hirq \<le> end' d \<longrightarrow>
      vmm_host_irqdomain_to_hwirq E d hirq = hirq - base d
      \<and> uint (vmm_host_irqdomain_to_hwirq E d hirq) = uint hirq - uint (base d))
   \<and> (hirq < base d \<or> end' d < hirq \<longrightarrow>
      vmm_host_irqdomain_to_hwirq E d hirq = VMM_ENOTAVAIL E)
   \<and> (base d = 100 \<and> count d = 8 \<and> end' d = base d + count d \<longrightarrow>
        (\<forall>k. k \<le> 8 \<longrightarrow> vmm_host_irqdomain_to_hwirq E d (100 + k) = k)
        \<and> vmm_host_irqdomain_to_hwirq E d (100 + 9) = VMM_ENOTAVAIL E
        \<and> (\<forall>h. h < 100 \<longrightarrow> vmm_host_irqdomain_to_hwirq E d h = VMM_ENOTAVAIL E))"
proof (intro conjI impI allI)
  assume inside: "base d \<le> hirq \<and> hirq \<le> end' d"
  then show "vmm_host_irqdomain_to_hwirq E d hirq = hirq - base d"
    by (auto simp add: vmm_host_irqdomain_to_hwirq_def)
  with inside show "uint (vmm_host_irqdomain_to_hwirq E d hirq) = uint hirq - uint (base d)"
    by (simp add: uint_minus_simple_alt)
next
  assume "hirq < base d \<or> end' d < hirq"
  then show "vmm_host_irqdomain_to_hwirq E d hirq = VMM_ENOTAVAIL E"
    by (auto simp add: vmm_host_irqdomain_to_hwirq_def)
next
  fix k :: u32
  assume d: "base d = 100 \<and> count d = 8 \<and> end' d = base d + count d" and k: "k \<le> 8"
  from k have "(100::u32) \<le> 100 + k" "100 + k \<le> (108::u32)"
    by (simp_all add: word_le_nat_alt unat_word_ariths)
  with d show "vmm_host_irqdomain_to_hwirq E d (100 + k) = k"
    by (auto simp add: vmm_host_irqdomain_to_hwirq_def)
next
  assume d: "base d = 100 \<and> count d = 8 \<and> end' d = base d + count d"
  then show "vmm_host_irqdomain_to_hwirq E d (100 + 9) = VMM_ENOTAVAIL E"
    by (simp add: vmm_host_irqdomain_to_hwirq_def)
next
  fix h :: u32
  assume d: "base d = 100 \<and> count d = 8 \<and> end' d = base d + count d" and "h < 100"
  then show "vmm_host_irqdomain_to_hwirq E d h = VMM_ENOTAVAIL E"
    by (simp add: vmm_host_irqdomain_to_hwirq_def)
qed

text \<open>
  C1, on the simulated platform: the domain that \<open>populate\<close> builds for base 100 and
  size 8, at the host IRQ numbers 108, 109, 99 and 105.
\<close>

theorem to_hwirq_in_and_out_of_range_witness:
  "base (populate None 100 8 None None) \<le> 108
   \<and> 108 \<le> end' (populate None 100 8 None None)
   \<and> vmm_host_irqdomain_to_hwirq sim (populate None 100 8 None None) 108 = 8
   \<and> end' (populate None 100 8 None None) < 109
   \<and> vmm_host_irqdomain_to_hwirq sim (populate None 100 8 None None) 109 = - 3
   \<and> (99::u32) < base (populate None 100 8 None None)
   \<and> vmm_host_irqdomain_to_hwirq sim (populate None 100 8 None None) 99 = - 3
   \<and> (5::u32) \<le> 8
   \<and> vmm_host_irqdomain_to_hwirq sim (populate None 100 8 None None) (100 + 5) = 5"
proof -
  let ?d = "populate None 100 8 None None"
  note range = to_hwirq_in_and_out_of_range [of ?d _ sim]
  have d: "base ?d = 100" "count ?d = 8" "end' ?d = 108" "VMM_ENOTAVAIL sim = - 3"
    by (simp_all add: populate_def sim_def)
  have "vmm_host_irqdomain_to_hwirq sim ?d 108 = 8"
    using range [of 108] d by simp
  moreover have "vmm_host_irqdomain_to_hwirq sim ?d 109 = - 3"
    using range [of 109] d by simp
  moreover have "vmm_host_irqdomain_to_hwirq sim ?d 99 = - 3"
    using range [of 99] d by simp
  moreover have "\<forall>k. k \<le> 8 \<longrightarrow> vmm_host_irqdomain_to_hwirq sim ?d (100 + k) = k"
    using range [of 0] d by simp
  then have "vmm_host_irqdomain_to_hwirq sim ?d (100 + 5) = 5"
    by (rule allE [of _ 5]) simp
  ultimately show ?thesis
    using d by simp
qed

section \<open>Disjointness of the live domains\<close>

text \<open>
  C2, counterexample. After \<open>init\<close>, \<open>add\<close> with base 10 and size 10 and \<open>add\<close> with base
  15 and size 15 both succeed: the registry holds two live domains, of ranges 10 to 20 and
  15 to 30, and host IRQ 17 belongs to both.
\<close>

theorem overlapping_domains_counterexample:
  "second_added =
     snd (vmm_host_irqdomain_add sim None 15 15 None None
       (snd (vmm_host_irqdomain_add sim None 10 10 None None
         (snd (vmm_host_irqdomain_init sim \<lparr>domains = [], extern = boot\<rparr>)))))
   \<and> domains second_added =
       [(1, \<lparr>of_node = None, base = 10, count = 10, end' = 20, host_data = None, ops = None\<rparr>),
        (2, \<lparr>of_node = None, base = 15, count = 15, end' = 30, host_data = None, ops = None\<rparr>)]
   \<and> (17 :: u32) \<in>
       {base (snd (domains second_added ! 0))..<end' (snd (domains second_added ! 0))}
       \<inter> {base (snd (domains second_added ! 1))..<end' (snd (domains second_added ! 1))}"
proof -
  have run: "second_added =
     snd (vmm_host_irqdomain_add sim None 15 15 None None
       (snd (vmm_host_irqdomain_add sim None 10 10 None None
         (snd (vmm_host_irqdomain_init sim \<lparr>domains = [], extern = boot\<rparr>)))))"
    by (simp only: second_added_def first_added_def started_def)
  have live: "domains second_added =
       [(1, \<lparr>of_node = None, base = 10, count = 10, end' = 20, host_data = None, ops = None\<rparr>),
        (2, \<lparr>of_node = None, base = 15, count = 15, end' = 30, host_data = None, ops = None\<rparr>)]"
    by (simp add: second_added_eval populate_def)
  have shared: "(17 :: u32) \<in>
       {base (snd (domains second_added ! 0))..<end' (snd (domains second_added ! 0))}
       \<inter> {base (snd (domains second_added ! 1))..<end' (snd (domains second_added ! 1))}"
    by (simp add: live)
  show ?thesis
    by (rule conjI [OF run conjI [OF live shared]])
qed

text \<open>
  C2, amended. \<open>vmm_host_irqdomain_add\<close> does not compare the new range with the live
  ones. Range disjointness is an invariant of the runs in which every \<open>add\<close> is given a
  range disjoint from the ranges of the live domains: in every registry state reached by
  such a run of \<open>add\<close>, \<open>remove\<close>, \<open>create_mapping\<close> and \<open>dispose_mapping\<close>, any two
  live domains at different positions of the registry have half-open ranges from \<open>base\<close>
  to \<open>end\<close> that do not overlap.
\<close>

theorem disjoint_run_ranges_disjoint:
  assumes "disjoint_run E s"
    and "i < length (domains s)" and "j < length (domains s)" and "i \<noteq> j"
  shows "{base (snd (domains s ! i))..<end' (snd (domains s ! i))}
      \<inter> {base (snd (domains s ! j))..<end' (snd (domains s ! j))} = {}"
proof -
  let ?P = "\<lambda>a b. ranges_disjoint (snd a) (snd b)"
  from assms(1) have sorted: "sorted_wrt ?P (domains s)"
    by (rule disjoint_run_sorted)
  have ordered: "ranges_disjoint (snd (domains s ! k)) (snd (domains s ! l))"
    if "k < l" "l < length (domains s)" for k l
    using sorted that by (simp add: sorted_wrt_iff_nth_less)
  from assms(4) consider "i < j" | "j < i"
    by arith
  then have "ranges_disjoint (snd (domains s ! i)) (snd (domains s ! j))"
  proof cases
    case 1
    from this assms(3) show ?thesis
      by (rule ordered)
  next
    case 2
    from this assms(2) have "ranges_disjoint (snd (domains s ! j)) (snd (domains s ! i))"
      by (rule ordered)
    then show ?thesis
      by (rule ranges_disjoint_sym)
  qed
  then show ?thesis
    by (simp add: ranges_disjoint_sets)
qed

text \<open>
  C2, on the simulated platform: the domains of ranges 10 to 20 and 300 to 304, added one
  after the other, then a mapping created in the second.
\<close>

theorem disjoint_run_ranges_disjoint_witness:
  "disjoint_run sim one_mapped
   \<and> domains one_mapped =
       [(1, \<lparr>of_node = None, base = 10, count = 10, end' = 20, host_data = None, ops = None\<rparr>),
        (2, \<lparr>of_node = None, base = 300, count = 4, end' = 304, host_data = None, ops = None\<rparr>)]
   \<and> 0 < length (domains one_mapped) \<and> 1 < length (domains one_mapped) \<and> (0 :: nat) \<noteq> 1
   \<and> {base (snd (domains one_mapped ! 0))..<end' (snd (domains one_mapped ! 0))}
       \<inter> {base (snd (domains one_mapped ! 1))..<end' (snd (domains one_mapped ! 1))} = {}"
proof -
  have live: "domains one_mapped =
       [(1, \<lparr>of_node = None, base = 10, count = 10, end' = 20, host_data = None, ops = None\<rparr>),
        (2, \<lparr>of_node = None, base = 300, count = 4, end' = 304, host_data = None, ops = None\<rparr>)]"
    by (simp add: one_mapped_eval populate_def)
  have first: "0 < length (domains one_mapped)" and second: "1 < length (domains one_mapped)"
    by (simp_all add: live)
  have distinct: "(0 :: nat) \<noteq> 1"
    by simp
  have apart: "{base (snd (domains one_mapped ! 0))..<end' (snd (domains one_mapped ! 0))}
      \<inter> {base (snd (domains one_mapped ! 1))..<end' (snd (domains one_mapped ! 1))} = {}"
    using one_mapped_run first second distinct by (rule disjoint_run_ranges_disjoint)
  show ?thesis
    by (rule conjI [OF one_mapped_run conjI [OF live conjI [OF first conjI [OF second
      conjI [OF distinct apart]]]]])
qed


section \<open>Looking up a mapping\<close>

text \<open>
  C3, counterexample. The "no mapping" outcome is not told apart from the out-of-bounds
  failure. For the domain of base 100 and count 8 on a platform with no live
  mapping, hardware IRQ 9 is out of bounds and hardware IRQ 3 is in bounds and unmapped:
  \<open>vmm_host_irqdomain_find_mapping\<close> returns the same value \<open>-1\<close> for both.
\<close>

theorem find_mapping_same_sentinel_counterexample:
  "count (populate None 100 8 None None) < 9
   \<and> vmm_host_irqdomain_find_mapping sim (populate None 100 8 None None) 9 boot = - 1
   \<and> 3 \<le> count (populate None 100 8 None None)
   \<and> vmm_host_irq_get sim (base (populate None 100 8 None None) + 3) boot = None
   \<and> vmm_host_irqdomain_find_mapping sim (populate None 100 8 None None) 3 boot = - 1"
  by (simp add: vmm_host_irqdomain_find_mapping_def populate_def sim_defs)

text \<open>
  C3, amended. \<open>vmm_host_irqdomain_find_mapping\<close> returns \<open>-1\<close> for every
  \<open>hwirq > count\<close>; for \<open>hwirq \<le> count\<close> it returns \<open>base + hwirq\<close> when the generic
  interrupt registry has a live entry at that number, and the same \<open>-1\<close> when it has none.
\<close>

theorem find_mapping_outcomes:
  "(count d < hwirq \<longrightarrow> vmm_host_irqdomain_find_mapping E d hwirq x = - 1)
   \<and> (hwirq \<le> count d \<and> vmm_host_irq_get E (base d + hwirq) x \<noteq> None \<longrightarrow>
        vmm_host_irqdomain_find_mapping E d hwirq x = base d + hwirq)
   \<and> (hwirq \<le> count d \<and> vmm_host_irq_get E (base d + hwirq) x = None \<longrightarrow>
        vmm_host_irqdomain_find_mapping E d hwirq x = - 1)"
  by (auto simp add: vmm_host_irqdomain_find_mapping_def)

text \<open>
  C3, on the simulated platform with live entries at 103 and 109: hardware IRQ 9 (out of
  bounds), 3 (mapped) and 4 (unmapped) of the domain of base 100 and count 8.
\<close>

theorem find_mapping_outcomes_witness:
  "count (populate None 100 8 None None) < 9
   \<and> vmm_host_irqdomain_find_mapping sim (populate None 100 8 None None) 9
        (boot\<lparr>irqs := [103, 109]\<rparr>) = - 1
   \<and> 3 \<le> count (populate None 100 8 None None)
   \<and> vmm_host_irq_get sim (base (populate None 100 8 None None) + 3)
        (boot\<lparr>irqs := [103, 109]\<rparr>) \<noteq> None
   \<and> vmm_host_irqdomain_find_mapping sim (populate None 100 8 None None) 3
        (boot\<lparr>irqs := [103, 109]\<rparr>) = 103
   \<and> 4 \<le> count (populate None 100 8 None None)
   \<and> vmm_host_irq_get sim (base (populate None 100 8 None None) + 4)
        (boot\<lparr>irqs := [103, 109]\<rparr>) = None
   \<and> vmm_host_irqdomain_find_mapping sim (populate None 100 8 None None) 4
        (boot\<lparr>irqs := [103, 109]\<rparr>) = - 1"
  using find_mapping_outcomes [of "populate None 100 8 None None" 9 sim "boot\<lparr>irqs := [103, 109]\<rparr>"]
    find_mapping_outcomes [of "populate None 100 8 None None" 3 sim "boot\<lparr>irqs := [103, 109]\<rparr>"]
    find_mapping_outcomes [of "populate None 100 8 None None" 4 sim "boot\<lparr>irqs := [103, 109]\<rparr>"]
  by (simp add: populate_def sim_defs)

section \<open>The domain of a host IRQ\<close>

text \<open>
  C4. \<open>vmm_host_irqdomain_get\<close> returns the address of the first record in registry
  order with \<open>base < hirq < end\<close>, both comparisons strict: the record at some position
  \<open>i\<close> passes the test and no record before it does. It returns the null pointer exactly
  when no live record passes the test.
\<close>

theorem get_first_strictly_containing:
  "(vmm_host_irqdomain_get s hirq = None \<longleftrightarrow>
      (\<forall>e \<in> set (domains s). \<not> (base (snd e) < hirq \<and> hirq < end' (snd e))))
   \<and> (vmm_host_irqdomain_get s hirq = Some p \<longleftrightarrow>
      (\<exists>i < length (domains s). fst (domains s ! i) = p
          \<and> base (snd (domains s ! i)) < hirq \<and> hirq < end' (snd (domains s ! i))
          \<and> (\<forall>j < i. \<not> (base (snd (domains s ! j)) < hirq \<and> hirq < end' (snd (domains s ! j))))))"
proof
  show "vmm_host_irqdomain_get s hirq = None \<longleftrightarrow>
      (\<forall>e \<in> set (domains s). \<not> (base (snd e) < hirq \<and> hirq < end' (snd e)))"
    by (auto simp add: vmm_host_irqdomain_get_def domain_scan_find find_None_iff)
next
  let ?P = "\<lambda>e. base (snd e) < hirq \<and> hirq < end' (snd e)"
  let ?ds = "domains s"
  have "vmm_host_irqdomain_get s hirq = Some p \<longleftrightarrow>
      (\<exists>e. find ?P ?ds = Some e \<and> fst e = p)"
    by (auto simp add: vmm_host_irqdomain_get_def domain_scan_find)
  also have "\<dots> \<longleftrightarrow>
      (\<exists>e. (\<exists>i < length ?ds. ?P (?ds ! i) \<and> e = ?ds ! i \<and> (\<forall>j < i. \<not> ?P (?ds ! j)))
         \<and> fst e = p)"
    by (simp only: find_Some_iff)
  also have "\<dots> \<longleftrightarrow>
      (\<exists>i < length ?ds. fst (?ds ! i) = p \<and> ?P (?ds ! i) \<and> (\<forall>j < i. \<not> ?P (?ds ! j)))"
    by blast
  finally show "vmm_host_irqdomain_get s hirq = Some p \<longleftrightarrow>
      (\<exists>i < length (domains s). fst (domains s ! i) = p
          \<and> base (snd (domains s ! i)) < hirq \<and> hirq < end' (snd (domains s ! i))
          \<and> (\<forall>j < i. \<not> (base (snd (domains s ! j)) < hirq \<and> hirq < end' (snd (domains s ! j)))))"
    by simp
qed

text \<open>
  C4, on the simulated platform, after adding the domains of ranges 10 to 20, 15 to 30 and
  40 to 50 in this order: 17 lies in the first two and the first is returned; 20 is the end
  of the first and lies in the second; 10 is a base and 30 an end, and no domain is found.
\<close>

theorem get_first_strictly_containing_witness:
  "vmm_host_irqdomain_get third_added 17 = Some 1
   \<and> vmm_host_irqdomain_get third_added 20 = Some 2
   \<and> vmm_host_irqdomain_get third_added 10 = None
   \<and> vmm_host_irqdomain_get third_added 30 = None"
proof -
  let ?inside = "\<lambda>hirq i. base (snd (domains third_added ! i)) < hirq
      \<and> hirq < end' (snd (domains third_added ! i))"
  have "\<exists>i < length (domains third_added). fst (domains third_added ! i) = 1
      \<and> ?inside 17 i \<and> (\<forall>j < i. \<not> ?inside 17 j)"
    by (rule exI [of _ 0]) (simp add: third_added_eval populate_def)
  then have "vmm_host_irqdomain_get third_added 17 = Some 1"
    using get_first_strictly_containing [of third_added 17 1] by simp
  moreover have "\<exists>i < length (domains third_added). fst (domains third_added ! i) = 2
      \<and> ?inside 20 i \<and> (\<forall>j < i. \<not> ?inside 20 j)"
    by (rule exI [of _ 1]) (simp add: third_added_eval populate_def)
  then have "vmm_host_irqdomain_get third_added 20 = Some 2"
    using get_first_strictly_containing [of third_added 20 2] by simp
  moreover have "vmm_host_irqdomain_get third_added 10 = None"
    using get_first_strictly_containing [of third_added 10]
    by (simp add: third_added_eval populate_def)
  moreover have "vmm_host_irqdomain_get third_added 30 = None"
    using get_first_strictly_containing [of third_added 30]
    by (simp add: third_added_eval populate_def)
  ultimately show ?thesis
    by simp
qed


section \<open>Creating a mapping twice\<close>

text \<open>
  C5. \<open>vmm_host_irqdomain_create_mapping\<close> is idempotent, for every domain and every
  \<open>hwirq \<le> count\<close>. When a mapping already exists, on a platform whose live host IRQ
  numbers are not negative as an \<^verbatim>\<open>int\<close>, it returns the existing \<open>base + hwirq\<close> and leaves
  the external collaborators untouched: the allocator is not called. When a call returns a
  host IRQ number (a value that is not negative), that number is \<open>base + hwirq\<close>; the
  second call made right after it returns the same number and changes nothing, on a
  platform where a mapping created by the allocator is live; and so does a second call in
  any later state in which the mapping is still live, nothing having disposed it in between.
\<close>

theorem create_mapping_idempotent:
  assumes "hwirq \<le> count d"
  shows "(live_fit_int E x \<and> vmm_host_irq_get E (base d + hwirq) x \<noteq> None \<longrightarrow>
            vmm_host_irqdomain_create_mapping E (Some d) hwirq x = (base d + hwirq, x))
    \<and> (0 \<le>s fst (vmm_host_irqdomain_create_mapping E (Some d) hwirq x) \<longrightarrow>
          fst (vmm_host_irqdomain_create_mapping E (Some d) hwirq x) = base d + hwirq
          \<and> (created_is_live E \<longrightarrow>
                vmm_host_irqdomain_create_mapping E (Some d) hwirq
                  (snd (vmm_host_irqdomain_create_mapping E (Some d) hwirq x)) =
                vmm_host_irqdomain_create_mapping E (Some d) hwirq x)
          \<and> (\<forall>y. vmm_host_irq_get E (base d + hwirq) y \<noteq> None \<longrightarrow>
                vmm_host_irqdomain_create_mapping E (Some d) hwirq y = (base d + hwirq, y)))"
proof -
  let ?first = "vmm_host_irqdomain_create_mapping E (Some d) hwirq x"
  let ?made = "vmm_host_irqext_create_mapping E (base d + hwirq) x"
  have existing: "vmm_host_irqdomain_create_mapping E (Some d) hwirq y = (base d + hwirq, y)"
    if "vmm_host_irq_get E (base d + hwirq) y \<noteq> None" "0 \<le>s base d + hwirq" for y
    using that assms
    by (simp add: vmm_host_irqdomain_create_mapping_def vmm_host_irqdomain_find_mapping_def
        not_less [symmetric])
  have asked: "?first = (if fst ?made <s 0 then fst ?made else base d + hwirq, snd ?made)"
    if "\<not> 0 \<le>s vmm_host_irqdomain_find_mapping E d hwirq x"
    using that assms
    by (simp add: vmm_host_irqdomain_create_mapping_def not_less [symmetric] split: prod.split)
  have c1: "live_fit_int E x \<and> vmm_host_irq_get E (base d + hwirq) x \<noteq> None \<longrightarrow>
      ?first = (base d + hwirq, x)"
  proof (rule impI)
    assume a: "live_fit_int E x \<and> vmm_host_irq_get E (base d + hwirq) x \<noteq> None"
    then have "0 \<le>s base d + hwirq"
      by (simp add: live_fit_int_def)
    with a show "?first = (base d + hwirq, x)"
      by (simp add: existing)
  qed
  have c2: "0 \<le>s fst ?first \<longrightarrow>
      fst ?first = base d + hwirq
      \<and> (created_is_live E \<longrightarrow>
            vmm_host_irqdomain_create_mapping E (Some d) hwirq (snd ?first) = ?first)
      \<and> (\<forall>y. vmm_host_irq_get E (base d + hwirq) y \<noteq> None \<longrightarrow>
            vmm_host_irqdomain_create_mapping E (Some d) hwirq y = (base d + hwirq, y))"
  proof (rule impI)
    assume ok: "0 \<le>s fst ?first"
    have number: "fst ?first = base d + hwirq"
      and live: "created_is_live E \<longrightarrow> vmm_host_irq_get E (base d + hwirq) (snd ?first) \<noteq> None"
    proof -
      show "fst ?first = base d + hwirq"
      proof (cases "0 \<le>s vmm_host_irqdomain_find_mapping E d hwirq x")
        case True
        with assms show ?thesis
          by (auto simp add: vmm_host_irqdomain_create_mapping_def
              vmm_host_irqdomain_find_mapping_def Let_def word_sle_eq split: if_splits)
      next
        case False
        with ok asked show ?thesis
          by (auto simp add: word_sle_eq word_sless_alt split: if_splits)
      qed
      show "created_is_live E \<longrightarrow> vmm_host_irq_get E (base d + hwirq) (snd ?first) \<noteq> None"
      proof (cases "0 \<le>s vmm_host_irqdomain_find_mapping E d hwirq x")
        case True
        with assms show ?thesis
          by (auto simp add: vmm_host_irqdomain_create_mapping_def
              vmm_host_irqdomain_find_mapping_def Let_def word_sle_eq split: if_splits)
      next
        case False
        with ok asked have "0 \<le>s fst ?made" "snd ?first = snd ?made"
          by (auto simp add: word_sle_eq word_sless_alt split: if_splits)
        then show ?thesis
          by (simp add: created_is_live_def)
      qed
    qed
    from ok number have sign: "0 \<le>s base d + hwirq"
      by simp
    have again: "vmm_host_irqdomain_create_mapping E (Some d) hwirq (snd ?first) = ?first"
      if "created_is_live E"
      using that live number existing [of "snd ?first", OF _ sign]
      by (simp add: prod_eq_iff)
    from number again existing sign
    show "fst ?first = base d + hwirq
      \<and> (created_is_live E \<longrightarrow>
            vmm_host_irqdomain_create_mapping E (Some d) hwirq (snd ?first) = ?first)
      \<and> (\<forall>y. vmm_host_irq_get E (base d + hwirq) y \<noteq> None \<longrightarrow>
            vmm_host_irqdomain_create_mapping E (Some d) hwirq y = (base d + hwirq, y))"
      by blast
  qed
  show ?thesis
    by (rule conjI [OF c1 c2])
qed

text \<open>
  C5, on the simulated platform, for hardware IRQ 3 of the domain of base 100 and count 8.
  With host IRQ 103 live, the call returns 103 and the platform receives no call. From the
  platform before any call, the first call asks the allocator for 103; the second call
  returns 103 and the list of calls received is unchanged; after host IRQ 104 has been
  created as well, a further call returns 103 and again changes nothing.
\<close>

theorem create_mapping_idempotent_witness:
  "3 \<le> count (populate None 100 8 None None)
   \<and> live_fit_int sim (boot\<lparr>irqs := [103]\<rparr>)
   \<and> vmm_host_irq_get sim (base (populate None 100 8 None None) + 3) (boot\<lparr>irqs := [103]\<rparr>)
       \<noteq> None
   \<and> vmm_host_irqdomain_create_mapping sim (Some (populate None 100 8 None None)) 3
       (boot\<lparr>irqs := [103]\<rparr>) = (103, boot\<lparr>irqs := [103]\<rparr>)
   \<and> vmm_host_irqdomain_create_mapping sim (Some (populate None 100 8 None None)) 3 boot =
       (103, boot\<lparr>irqs := [103], calls := [Create_mapping 103]\<rparr>)
   \<and> 0 \<le>s fst (vmm_host_irqdomain_create_mapping sim (Some (populate None 100 8 None None)) 3 boot)
   \<and> created_is_live sim
   \<and> vmm_host_irqdomain_create_mapping sim (Some (populate None 100 8 None None)) 3
       (boot\<lparr>irqs := [103], calls := [Create_mapping 103]\<rparr>) =
       (103, boot\<lparr>irqs := [103], calls := [Create_mapping 103]\<rparr>)
   \<and> vmm_host_irq_get sim (base (populate None 100 8 None None) + 3)
       (boot\<lparr>irqs := [104, 103], calls := [Create_mapping 103, Create_mapping 104]\<rparr>) \<noteq> None
   \<and> vmm_host_irqdomain_create_mapping sim (Some (populate None 100 8 None None)) 3
       (boot\<lparr>irqs := [104, 103], calls := [Create_mapping 103, Create_mapping 104]\<rparr>) =
       (103, boot\<lparr>irqs := [104, 103], calls := [Create_mapping 103, Create_mapping 104]\<rparr>)"
proof -
  let ?d = "populate None 100 8 None None"
  let ?x0 = "boot\<lparr>irqs := [103]\<rparr>"
  let ?x1 = "boot\<lparr>irqs := [103], calls := [Create_mapping 103]\<rparr>"
  let ?y = "boot\<lparr>irqs := [104, 103], calls := [Create_mapping 103, Create_mapping 104]\<rparr>"
  have bound: "3 \<le> count ?d"
    by (simp add: populate_def)
  have number: "base ?d + 3 = 103"
    by (simp add: populate_def)
  have live0: "vmm_host_irq_get sim (base ?d + 3) ?x0 \<noteq> None"
    and live_later: "vmm_host_irq_get sim (base ?d + 3) ?y \<noteq> None"
    by (simp_all add: populate_def sim_defs)
  have existing: "vmm_host_irqdomain_create_mapping sim (Some ?d) 3 ?x0 = (103, ?x0)"
    using create_mapping_idempotent [OF bound, of sim ?x0] sim_live_fit_int live0 number
    by simp
  have first: "vmm_host_irqdomain_create_mapping sim (Some ?d) 3 boot = (103, ?x1)"
    by (simp add: mapping_eval populate_def sim_defs word_sle_eq word_sless_alt)
  have ok: "0 \<le>s fst (vmm_host_irqdomain_create_mapping sim (Some ?d) 3 boot)"
    by (simp add: first word_sle_eq)
  from create_mapping_idempotent [OF bound, of sim boot] ok sim_created_is_live
  have "vmm_host_irqdomain_create_mapping sim (Some ?d) 3
      (snd (vmm_host_irqdomain_create_mapping sim (Some ?d) 3 boot)) =
      vmm_host_irqdomain_create_mapping sim (Some ?d) 3 boot"
    by blast
  then have second: "vmm_host_irqdomain_create_mapping sim (Some ?d) 3 ?x1 = (103, ?x1)"
    by (simp add: first)
  from create_mapping_idempotent [OF bound, of sim boot] ok live_later
  have "vmm_host_irqdomain_create_mapping sim (Some ?d) 3 ?y = (base ?d + 3, ?y)"
    by blast
  then have later: "vmm_host_irqdomain_create_mapping sim (Some ?d) 3 ?y = (103, ?y)"
    by (simp only: number)
  show ?thesis
    by (rule conjI [OF bound conjI [OF sim_live_fit_int conjI [OF live0 conjI [OF existing
      conjI [OF first conjI [OF ok conjI [OF sim_created_is_live conjI [OF second
      conjI [OF live_later later]]]]]]]]])
qed


section \<open>Adding a domain\<close>

text \<open>
  C6, counterexample. On the simulated platform the capacity is 1024. With a base that is
  not negative, \<open>add\<close> does not fail exactly when the range exceeds the capacity: the
  range from 1000 to 1024 does not exceed 1024, and is refused; the range from 10 to 20 is
  refused when \<^verbatim>\<open>vmm_zalloc\<close> has no memory left; and base 5 with size 4294967295, whose end
  wraps around to 4, is accepted although it exceeds the capacity.
\<close>

theorem add_capacity_counterexample:
  "\<not> exceeds_capacity sim 1000 24
   \<and> vmm_host_irqdomain_add sim None 1000 24 None None started = (None, started)
   \<and> \<not> exceeds_capacity sim 10 10
   \<and> vmm_host_irqdomain_add sim None 10 10 None None out_of_memory =
       (None, out_of_memory\<lparr>extern := boot\<lparr>heap_left := 0, calls := [Zalloc]\<rparr>\<rparr>)
   \<and> exceeds_capacity sim 5 4294967295
   \<and> vmm_host_irqdomain_add sim None 5 4294967295 None None started =
       (Some 1,
        \<lparr>domains = [(1, \<lparr>of_node = None, base = 5, count = 4294967295, end' = 4,
                           host_data = None, ops = None\<rparr>)],
         extern = boot\<lparr>heap_next := 2, heap_left := 3, calls := [Zalloc]\<rparr>\<rparr>)"
  by (simp add: exceeds_capacity_def out_of_memory_def started_eval add_eval sim_defs)

text \<open>
  C6, amended. With a requested base that is not negative and a range whose end
  \<open>base + size\<close> does not wrap around 32 bits, \<open>vmm_host_irqdomain_add\<close> fails exactly
  when the end reaches or exceeds \<^verbatim>\<open>CONFIG_HOST_IRQ_COUNT\<close> (then nothing at all changes) or
  \<^verbatim>\<open>vmm_zalloc\<close> gives no record. With a negative base it fails exactly when \<^verbatim>\<open>vmm_zalloc\<close>
  gives no record or \<^verbatim>\<open>vmm_host_irqext_alloc_region\<close> returns a negative value, and in the
  latter case the new record is freed. Every failure returns the null pointer and leaves
  the registry as it is. On success the address of the new record is returned, and the
  record, with the requested or the allocated base, \<open>count = size\<close> and
  \<open>end = base + size\<close>, is the last of the registry, behind the records that were there.
\<close>

theorem add_outcomes:
  "(0 \<le>s CONFIG_HOST_IRQ_COUNT E \<and> 0 \<le>s base' \<and> uint base' + uint size' < 2 ^ 32 \<longrightarrow>
      (fst (vmm_host_irqdomain_add E node base' size' opsp hdata s) = None \<longleftrightarrow>
         sint (CONFIG_HOST_IRQ_COUNT E) \<le> sint base' + uint size'
         \<or> fst (vmm_zalloc E (extern s)) = None)
      \<and> (sint (CONFIG_HOST_IRQ_COUNT E) \<le> sint base' + uint size' \<longrightarrow>
            vmm_host_irqdomain_add E node base' size' opsp hdata s = (None, s)))
   \<and> (base' <s 0 \<longrightarrow>
      (fst (vmm_host_irqdomain_add E node base' size' opsp hdata s) = None \<longleftrightarrow>
         fst (vmm_zalloc E (extern s)) = None
         \<or> fst (vmm_host_irqext_alloc_region E size' (snd (vmm_zalloc E (extern s)))) <s 0)
      \<and> (\<forall>p. fst (vmm_zalloc E (extern s)) = Some p
            \<and> fst (vmm_host_irqext_alloc_region E size' (snd (vmm_zalloc E (extern s)))) <s 0 \<longrightarrow>
            extern (snd (vmm_host_irqdomain_add E node base' size' opsp hdata s)) =
              vmm_free E p
                (snd (vmm_host_irqext_alloc_region E size' (snd (vmm_zalloc E (extern s)))))))
   \<and> (fst (vmm_host_irqdomain_add E node base' size' opsp hdata s) = None \<longrightarrow>
        domains (snd (vmm_host_irqdomain_add E node base' size' opsp hdata s)) = domains s)
   \<and> (\<forall>p. fst (vmm_host_irqdomain_add E node base' size' opsp hdata s) = Some p \<longrightarrow>
        fst (vmm_zalloc E (extern s)) = Some p
        \<and> domains (snd (vmm_host_irqdomain_add E node base' size' opsp hdata s)) =
            domains s @
            [(p, \<lparr>of_node = node,
                  base = (if base' <s 0
                    then fst (vmm_host_irqext_alloc_region E size' (snd (vmm_zalloc E (extern s))))
                    else base'),
                  count = size',
                  end' = (if base' <s 0
                    then fst (vmm_host_irqext_alloc_region E size' (snd (vmm_zalloc E (extern s))))
                    else base') + size',
                  host_data = hdata, ops = opsp\<rparr>)])"
proof -
  let ?add = "vmm_host_irqdomain_add E node base' size' opsp hdata s"
  let ?mem = "vmm_zalloc E (extern s)"
  let ?region = "vmm_host_irqext_alloc_region E size' (snd ?mem)"
  have explicit: "(fst ?add = None \<longleftrightarrow>
         sint (CONFIG_HOST_IRQ_COUNT E) \<le> sint base' + uint size' \<or> fst ?mem = None)
      \<and> (sint (CONFIG_HOST_IRQ_COUNT E) \<le> sint base' + uint size' \<longrightarrow> ?add = (None, s))"
    if "0 \<le>s CONFIG_HOST_IRQ_COUNT E" "0 \<le>s base'" "uint base' + uint size' < 2 ^ 32"
    using that capacity_guard [OF that]
    by (cases ?mem; cases "fst ?mem")
      (auto simp add: vmm_host_irqdomain_add_def signs)
  have auto_base: "(fst ?add = None \<longleftrightarrow> fst ?mem = None \<or> fst ?region <s 0)
      \<and> (\<forall>p. fst ?mem = Some p \<and> fst ?region <s 0 \<longrightarrow>
            extern (snd ?add) = vmm_free E p (snd ?region))"
    if "base' <s 0"
    using that
    by (cases ?mem; cases "fst ?mem"; cases ?region)
      (auto simp add: vmm_host_irqdomain_add_def signs)
  have failed: "domains (snd ?add) = domains s" if "fst ?add = None"
    using that
    by (cases ?mem; cases "fst ?mem"; cases ?region)
      (auto simp add: vmm_host_irqdomain_add_def split: if_splits)
  have added: "fst ?mem = Some p
      \<and> domains (snd ?add) = domains s @
            [(p, \<lparr>of_node = node,
                  base = (if base' <s 0 then fst ?region else base'),
                  count = size',
                  end' = (if base' <s 0 then fst ?region else base') + size',
                  host_data = hdata, ops = opsp\<rparr>)]"
    if "fst ?add = Some p" for p
    using that
    by (cases ?mem; cases "fst ?mem"; cases ?region)
      (auto simp add: vmm_host_irqdomain_add_def populate_def list_add_tail_def
        split: if_splits)
  have c1: "0 \<le>s CONFIG_HOST_IRQ_COUNT E \<and> 0 \<le>s base'
      \<and> uint base' + uint size' < 2 ^ 32 \<longrightarrow>
      (fst ?add = None \<longleftrightarrow>
         sint (CONFIG_HOST_IRQ_COUNT E) \<le> sint base' + uint size' \<or> fst ?mem = None)
      \<and> (sint (CONFIG_HOST_IRQ_COUNT E) \<le> sint base' + uint size' \<longrightarrow> ?add = (None, s))"
  proof (rule impI)
    assume "0 \<le>s CONFIG_HOST_IRQ_COUNT E \<and> 0 \<le>s base' \<and> uint base' + uint size' < 2 ^ 32"
    then have "0 \<le>s CONFIG_HOST_IRQ_COUNT E" "0 \<le>s base'" "uint base' + uint size' < 2 ^ 32"
      by simp_all
    then show "(fst ?add = None \<longleftrightarrow>
         sint (CONFIG_HOST_IRQ_COUNT E) \<le> sint base' + uint size' \<or> fst ?mem = None)
      \<and> (sint (CONFIG_HOST_IRQ_COUNT E) \<le> sint base' + uint size' \<longrightarrow> ?add = (None, s))"
      by (rule explicit)
  qed
  have c2: "base' <s 0 \<longrightarrow>
      (fst ?add = None \<longleftrightarrow> fst ?mem = None \<or> fst ?region <s 0)
      \<and> (\<forall>p. fst ?mem = Some p \<and> fst ?region <s 0 \<longrightarrow>
            extern (snd ?add) = vmm_free E p (snd ?region))"
    by (rule impI) (rule auto_base)
  have c3: "fst ?add = None \<longrightarrow> domains (snd ?add) = domains s"
    by (rule impI) (rule failed)
  have c4: "\<forall>p. fst ?add = Some p \<longrightarrow>
      fst ?mem = Some p
      \<and> domains (snd ?add) = domains s @
            [(p, \<lparr>of_node = node,
                  base = (if base' <s 0 then fst ?region else base'),
                  count = size',
                  end' = (if base' <s 0 then fst ?region else base') + size',
                  host_data = hdata, ops = opsp\<rparr>)]"
    by (intro allI impI) (rule added)
  show ?thesis
    by (rule conjI [OF c1 conjI [OF c2 conjI [OF c3 c4]]])
qed

text \<open>
  C6, on the simulated platform with capacity 1024: base 1000 with size 24 is refused;
  base 10 with size 10 is added; a negative base with size 10 gets the allocated base 1024;
  a negative base with size 2147483647 gets no region, and the record is freed.
\<close>

theorem add_outcomes_witness:
  "0 \<le>s CONFIG_HOST_IRQ_COUNT sim \<and> 0 \<le>s (1000 :: s32)
   \<and> uint (1000 :: s32) + uint (24 :: u32) < 2 ^ 32
   \<and> sint (CONFIG_HOST_IRQ_COUNT sim) \<le> sint (1000 :: s32) + uint (24 :: u32)
   \<and> vmm_host_irqdomain_add sim None 1000 24 None None started = (None, started)
   \<and> fst (vmm_host_irqdomain_add sim None 10 10 None None started) = Some 1
   \<and> domains (snd (vmm_host_irqdomain_add sim None 10 10 None None started)) =
       [(1, \<lparr>of_node = None, base = 10, count = 10, end' = 20, host_data = None, ops = None\<rparr>)]
   \<and> (- 1 :: s32) <s 0
   \<and> fst (vmm_host_irqdomain_add sim None (- 1) 10 None None started) = Some 1
   \<and> domains (snd (vmm_host_irqdomain_add sim None (- 1) 10 None None started)) =
       [(1, \<lparr>of_node = None, base = 1024, count = 10, end' = 1034,
              host_data = None, ops = None\<rparr>)]
   \<and> fst (vmm_zalloc sim (extern started)) = Some 1
   \<and> fst (vmm_host_irqext_alloc_region sim 2147483647 (snd (vmm_zalloc sim (extern started)))) <s 0
   \<and> fst (vmm_host_irqdomain_add sim None (- 1) 2147483647 None None started) = None
   \<and> domains (snd (vmm_host_irqdomain_add sim None (- 1) 2147483647 None None started)) = []
   \<and> extern (snd (vmm_host_irqdomain_add sim None (- 1) 2147483647 None None started)) =
       boot\<lparr>heap_next := 2, heap_left := 4,
         calls := [Zalloc, Alloc_region 2147483647, Free 1]\<rparr>"
proof -
  have cap: "0 \<le>s CONFIG_HOST_IRQ_COUNT sim \<and> 0 \<le>s (1000 :: s32)
      \<and> uint (1000 :: s32) + uint (24 :: u32) < 2 ^ 32"
    and reached: "sint (CONFIG_HOST_IRQ_COUNT sim) \<le> sint (1000 :: s32) + uint (24 :: u32)"
    and negative: "(- 1 :: s32) <s 0"
    by (simp_all add: sim_def word_sle_eq word_sless_alt)
  have mem: "vmm_zalloc sim (extern started) =
      (Some 1, boot\<lparr>heap_next := 2, heap_left := 3, calls := [Zalloc]\<rparr>)"
    by (simp add: started_eval sim_defs)
  have region: "vmm_host_irqext_alloc_region sim 10
        (boot\<lparr>heap_next := 2, heap_left := 3, calls := [Zalloc]\<rparr>) =
      (1024, boot\<lparr>heap_next := 2, heap_left := 3, region_next := 1034,
         calls := [Zalloc, Alloc_region 10]\<rparr>)"
    and no_region: "vmm_host_irqext_alloc_region sim 2147483647
        (boot\<lparr>heap_next := 2, heap_left := 3, calls := [Zalloc]\<rparr>) =
      (- 1, boot\<lparr>heap_next := 2, heap_left := 3,
         calls := [Zalloc, Alloc_region 2147483647]\<rparr>)"
    by (simp_all add: sim_defs)
  have released: "vmm_free sim 1 (boot\<lparr>heap_next := 2, heap_left := 3,
        calls := [Zalloc, Alloc_region 2147483647]\<rparr>) =
      boot\<lparr>heap_next := 2, heap_left := 4,
        calls := [Zalloc, Alloc_region 2147483647, Free 1]\<rparr>"
    by (simp add: sim_defs)
  have rejected: "vmm_host_irqdomain_add sim None 1000 24 None None started = (None, started)"
    using add_outcomes [of sim 1000 24 None None None started] cap reached by blast
  have explicit: "fst (vmm_host_irqdomain_add sim None 10 10 None None started) = Some 1"
    by (simp add: started_eval add_eval sim_defs)
  have explicit_added: "domains (snd (vmm_host_irqdomain_add sim None 10 10 None None started)) =
      [(1, \<lparr>of_node = None, base = 10, count = 10, end' = 20, host_data = None, ops = None\<rparr>)]"
    using add_outcomes [of sim 10 10 None None None started] explicit
    by (simp add: started_eval word_sless_alt)
  have assigned: "fst (vmm_host_irqdomain_add sim None (- 1) 10 None None started) = Some 1"
    using add_outcomes [of sim "- 1" 10 None None None started] negative mem region
    by (auto simp add: word_sless_alt)
  have assigned_added:
    "domains (snd (vmm_host_irqdomain_add sim None (- 1) 10 None None started)) =
      [(1, \<lparr>of_node = None, base = 1024, count = 10, end' = 1034,
             host_data = None, ops = None\<rparr>)]"
    using add_outcomes [of sim "- 1" 10 None None None started] assigned mem region
    by (simp add: started_eval word_sless_alt)
  have failing: "fst (vmm_host_irqext_alloc_region sim 2147483647
      (snd (vmm_zalloc sim (extern started)))) <s 0"
    by (simp add: mem no_region word_sless_alt)
  have refused: "fst (vmm_host_irqdomain_add sim None (- 1) 2147483647 None None started) = None"
    using add_outcomes [of sim "- 1" 2147483647 None None None started] negative failing
    by blast
  have unchanged:
    "domains (snd (vmm_host_irqdomain_add sim None (- 1) 2147483647 None None started)) = []"
    using add_outcomes [of sim "- 1" 2147483647 None None None started] refused
    by (simp add: started_eval)
  have freed: "extern (snd (vmm_host_irqdomain_add sim None (- 1) 2147483647 None None started)) =
      boot\<lparr>heap_next := 2, heap_left := 4,
        calls := [Zalloc, Alloc_region 2147483647, Free 1]\<rparr>"
    using add_outcomes [of sim "- 1" 2147483647 None None None started] negative failing
      released
    by (simp add: mem no_region)
  have "fst (vmm_zalloc sim (extern started)) = Some 1"
    by (simp add: mem)
  with cap reached negative rejected explicit explicit_added assigned assigned_added failing
    refused unchanged freed
  show ?thesis
    by blast
qed


section \<open>Removing a domain\<close>

lemma list_del_split:
  "p \<notin> fst ` set before \<Longrightarrow> list_del p (before @ (p, d) # after) = before @ after"
  by (induction before) auto

lemma map_of_split:
  "p \<notin> fst ` set before \<Longrightarrow> map_of (before @ (p, d) # after) p = Some d"
  by (induction before) auto

text \<open>
  C7. \<open>vmm_host_irqdomain_remove\<close> leaves everything as it is when given the null
  pointer. Given the address \<open>p\<close> of a live record \<open>d\<close>, it unlinks that record from the
  registry (the records before and after it keep their order), then calls
  \<^verbatim>\<open>vmm_host_irqext_dispose_mapping\<close> once for every host IRQ number from \<open>base\<close> up to, but
  not including, \<open>end\<close>, in increasing order and whatever each call returns, and last
  calls \<^verbatim>\<open>vmm_free\<close> on \<open>p\<close>.
\<close>

theorem remove_unlinks_disposes_frees:
  "vmm_host_irqdomain_remove E None s = Some s
   \<and> (domains s = before @ (p, d) # after \<and> p \<notin> fst ` set before \<longrightarrow>
        vmm_host_irqdomain_remove E (Some p) s =
          Some \<lparr>domains = before @ after,
                extern = vmm_free E p
                  (foldl (\<lambda>x n. snd (vmm_host_irqext_dispose_mapping E n x)) (extern s)
                     (irq_numbers (base d) (end' d)))\<rparr>
        \<and> set (irq_numbers (base d) (end' d)) = {base d..<end' d}
        \<and> sorted_wrt (<) (irq_numbers (base d) (end' d)))"
proof (intro conjI impI)
  show "vmm_host_irqdomain_remove E None s = Some s"
    by (simp add: vmm_host_irqdomain_remove_def)
next
  assume "domains s = before @ (p, d) # after \<and> p \<notin> fst ` set before"
  then have ds: "domains s = before @ (p, d) # after" and fresh: "p \<notin> fst ` set before"
    by simp_all
  have "map_of (domains s) p = Some d"
    unfolding ds using fresh by (rule map_of_split)
  moreover have "list_del p (domains s) = before @ after"
    unfolding ds using fresh by (rule list_del_split)
  ultimately show "vmm_host_irqdomain_remove E (Some p) s =
      Some \<lparr>domains = before @ after,
            extern = vmm_free E p
              (foldl (\<lambda>x n. snd (vmm_host_irqext_dispose_mapping E n x)) (extern s)
                 (irq_numbers (base d) (end' d)))\<rparr>"
    by (simp add: vmm_host_irqdomain_remove_def dispose_range_fold)
next
  show "set (irq_numbers (base d) (end' d)) = {base d..<end' d}"
    by (rule set_irq_numbers)
next
  show "sorted_wrt (<) (irq_numbers (base d) (end' d))"
    by (rule sorted_irq_numbers)
qed

text \<open>
  C7, on the simulated platform: a registry with the domains of ranges 10 to 20 and 300 to
  304, where only 301 has a live mapping. Removing the second domain disposes 300, 301, 302
  and 303 in this order, although the disposal of 300 fails, frees the record at address 2
  and leaves the first domain in the registry.
\<close>

theorem remove_unlinks_disposes_frees_witness:
  "vmm_host_irqdomain_remove sim None one_mapped = Some one_mapped
   \<and> domains one_mapped =
       [(1, populate None 10 10 None None)] @ (2, populate None 300 4 None None) # []
   \<and> 2 \<notin> fst ` set [(1 :: addr, populate None 10 10 None None)]
   \<and> fst (vmm_host_irqext_dispose_mapping sim 300 (extern one_mapped)) = - 1
   \<and> vmm_host_irqdomain_remove sim (Some 2) one_mapped =
       Some \<lparr>domains = [(1, populate None 10 10 None None)],
             extern = boot\<lparr>irqs := [], heap_next := 3, heap_left := 3,
               calls := [Zalloc, Zalloc, Create_mapping 301, Dispose_mapping 300,
                 Dispose_mapping 301, Dispose_mapping 302, Dispose_mapping 303, Free 2]\<rparr>\<rparr>"
proof -
  note removal = remove_unlinks_disposes_frees [of sim one_mapped
      "[(1, populate None 10 10 None None)]" 2 "populate None 300 4 None None" "[]"]
  have split: "domains one_mapped =
        [(1, populate None 10 10 None None)] @ (2, populate None 300 4 None None) # []
      \<and> 2 \<notin> fst ` set [(1 :: addr, populate None 10 10 None None)]"
    by (simp add: one_mapped_eval)
  have null: "vmm_host_irqdomain_remove sim None one_mapped = Some one_mapped"
    using removal by (rule conjunct1)
  have "vmm_host_irqdomain_remove sim (Some 2) one_mapped =
      Some \<lparr>domains = [(1, populate None 10 10 None None)] @ [],
            extern = vmm_free sim 2
              (foldl (\<lambda>x n. snd (vmm_host_irqext_dispose_mapping sim n x)) (extern one_mapped)
                 (irq_numbers (base (populate None 300 4 None None))
                    (end' (populate None 300 4 None None))))\<rparr>"
    using removal [THEN conjunct2, rule_format, OF split] by (rule conjunct1)
  moreover have "irq_numbers (base (populate None 300 4 None None))
      (end' (populate None 300 4 None None)) = [300, 301, 302, 303]"
    by (simp add: populate_def irq_numbers_300)
  ultimately have live: "vmm_host_irqdomain_remove sim (Some 2) one_mapped =
      Some \<lparr>domains = [(1, populate None 10 10 None None)],
            extern = boot\<lparr>irqs := [], heap_next := 3, heap_left := 3,
              calls := [Zalloc, Zalloc, Create_mapping 301, Dispose_mapping 300,
                Dispose_mapping 301, Dispose_mapping 302, Dispose_mapping 303, Free 2]\<rparr>\<rparr>"
    by (simp add: one_mapped_eval sim_defs)
  have failing: "fst (vmm_host_irqext_dispose_mapping sim 300 (extern one_mapped)) = - 1"
    by (simp add: one_mapped_eval sim_defs)
  from null split failing live show ?thesis
    by blast
qed


section \<open>Disposing the first host IRQ of a domain\<close>

text \<open>
  C9, counterexample. The registry holds the domains of ranges 10 to 20 and 15 to 30, added
  with explicit bases, and host IRQ 15, the base of the second domain, has a live mapping.
  \<open>vmm_host_irqdomain_dispose_mapping\<close> at 15 finds the first domain, whose open interval
  contains 15, and hands the disposal to the allocator: it returns the allocator's 0, not
  \<open>VMM_ENOTAVAIL\<close>, and the mapping at 15 is gone.
\<close>

theorem dispose_base_reaches_allocator_counterexample:
  "(2, populate None 15 15 None None) \<in> set (domains bases_mapped)
   \<and> vmm_host_irq_get sim (base (populate None 15 15 None None)) (extern bases_mapped) \<noteq> None
   \<and> VMM_ENOTAVAIL sim = - 3
   \<and> vmm_host_irqdomain_dispose_mapping sim (base (populate None 15 15 None None)) bases_mapped =
       (0, bases_mapped\<lparr>extern := boot\<lparr>irqs := [40], heap_next := 4, heap_left := 1,
          calls := [Zalloc, Zalloc, Zalloc, Create_mapping 15, Create_mapping 40,
            Dispose_mapping 15]\<rparr>\<rparr>)"
  by (simp add: bases_mapped_eval dispose_eval populate_def sim_defs)

text \<open>
  C9, amended. For every live domain \<open>d\<close>, what
  \<open>vmm_host_irqdomain_dispose_mapping\<close> does at \<open>base d\<close> depends on the other live
  domains only, since the lookup compares \<open>hirq > base\<close> strictly and so skips the record
  of \<open>d\<close> itself. When the base lies strictly inside no live domain (no live record has
  \<open>base < base d < end\<close>), it returns \<open>VMM_ENOTAVAIL\<close> without calling the allocator, and
  the registry and the state of the external collaborators are as before, whether or not a
  live mapping exists at \<open>base d\<close>. When the base lies strictly inside some live domain,
  it calls \<^verbatim>\<open>vmm_host_irqext_dispose_mapping\<close> at \<open>base d\<close> and returns what that call
  returns. The diagnostic line that the lookup prints when it finds no domain is console
  output, which the model leaves out.
\<close>

theorem dispose_base_outcomes:
  assumes "(p, d) \<in> set (domains s)"
  shows "((\<forall>e \<in> set (domains s). \<not> (base (snd e) < base d \<and> base d < end' (snd e))) \<longrightarrow>
        vmm_host_irqdomain_dispose_mapping E (base d) s = (VMM_ENOTAVAIL E, s))
    \<and> ((\<exists>e \<in> set (domains s). base (snd e) < base d \<and> base d < end' (snd e)) \<longrightarrow>
        vmm_host_irqdomain_dispose_mapping E (base d) s =
          (fst (vmm_host_irqext_dispose_mapping E (base d) (extern s)),
           s\<lparr>extern := snd (vmm_host_irqext_dispose_mapping E (base d) (extern s))\<rparr>))"
proof (intro conjI impI)
  assume "\<forall>e \<in> set (domains s). \<not> (base (snd e) < base d \<and> base d < end' (snd e))"
  then have "vmm_host_irqdomain_get s (base d) = None"
    by (simp add: vmm_host_irqdomain_get_def domain_scan_None)
  then show "vmm_host_irqdomain_dispose_mapping E (base d) s = (VMM_ENOTAVAIL E, s)"
    by (simp add: vmm_host_irqdomain_dispose_mapping_def)
next
  assume "\<exists>e \<in> set (domains s). base (snd e) < base d \<and> base d < end' (snd e)"
  then have "vmm_host_irqdomain_get s (base d) \<noteq> None"
    by (simp add: vmm_host_irqdomain_get_def domain_scan_None)
  then obtain q where "vmm_host_irqdomain_get s (base d) = Some q"
    by blast
  then show "vmm_host_irqdomain_dispose_mapping E (base d) s =
      (fst (vmm_host_irqext_dispose_mapping E (base d) (extern s)),
       s\<lparr>extern := snd (vmm_host_irqext_dispose_mapping E (base d) (extern s))\<rparr>)"
    by (simp add: vmm_host_irqdomain_dispose_mapping_def split: prod.split)
qed

text \<open>
  C9, on the simulated platform, where 40 and 15 have live mappings: 40 is the base of the
  third domain and lies in no other domain, and disposing it is refused, with the registry
  and the platform as before; 15 is the base of the second domain and lies in the first,
  and disposing it calls the allocator.
\<close>

theorem dispose_base_outcomes_witness:
  "(3, populate None 40 10 None None) \<in> set (domains bases_mapped)
   \<and> vmm_host_irq_get sim (base (populate None 40 10 None None)) (extern bases_mapped) \<noteq> None
   \<and> vmm_host_irqdomain_dispose_mapping sim (base (populate None 40 10 None None)) bases_mapped =
       (- 3, bases_mapped)
   \<and> (2, populate None 15 15 None None) \<in> set (domains bases_mapped)
   \<and> (1, populate None 10 10 None None) \<in> set (domains bases_mapped)
   \<and> base (populate None 10 10 None None) < base (populate None 15 15 None None)
   \<and> base (populate None 15 15 None None) < end' (populate None 10 10 None None)
   \<and> vmm_host_irqdomain_dispose_mapping sim (base (populate None 15 15 None None)) bases_mapped =
       (fst (vmm_host_irqext_dispose_mapping sim 15 (extern bases_mapped)),
        bases_mapped\<lparr>extern := snd (vmm_host_irqext_dispose_mapping sim 15 (extern bases_mapped))\<rparr>)
   \<and> calls (snd (vmm_host_irqext_dispose_mapping sim 15 (extern bases_mapped))) =
       [Zalloc, Zalloc, Zalloc, Create_mapping 15, Create_mapping 40, Dispose_mapping 15]"
proof -
  let ?third = "populate None 40 10 None None"
  let ?second = "populate None 15 15 None None"
  let ?first = "populate None 10 10 None None"
  have live3: "(3, ?third) \<in> set (domains bases_mapped)"
    and live2: "(2, ?second) \<in> set (domains bases_mapped)"
    and live1: "(1, ?first) \<in> set (domains bases_mapped)"
    by (simp_all add: bases_mapped_eval)
  have alone: "\<forall>e \<in> set (domains bases_mapped).
      \<not> (base (snd e) < base ?third \<and> base ?third < end' (snd e))"
    by (simp add: bases_mapped_eval populate_def)
  have mapped: "vmm_host_irq_get sim (base ?third) (extern bases_mapped) \<noteq> None"
    by (simp add: bases_mapped_eval populate_def sim_defs)
  have code: "VMM_ENOTAVAIL sim = - 3"
    by (simp add: sim_def)
  have refused: "vmm_host_irqdomain_dispose_mapping sim (base ?third) bases_mapped =
      (- 3, bases_mapped)"
    using dispose_base_outcomes [OF live3, of sim] alone code by simp
  have inside: "base ?first < base ?second" "base ?second < end' ?first"
    by (simp_all add: populate_def)
  with live1 have "\<exists>e \<in> set (domains bases_mapped).
      base (snd e) < base ?second \<and> base ?second < end' (snd e)"
    by force
  with dispose_base_outcomes [OF live2, of sim]
  have "vmm_host_irqdomain_dispose_mapping sim (base ?second) bases_mapped =
      (fst (vmm_host_irqext_dispose_mapping sim (base ?second) (extern bases_mapped)),
       bases_mapped\<lparr>extern :=
         snd (vmm_host_irqext_dispose_mapping sim (base ?second) (extern bases_mapped))\<rparr>)"
    by blast
  moreover have b: "base ?second = 15"
    by (simp add: populate_def)
  ultimately have handed: "vmm_host_irqdomain_dispose_mapping sim (base ?second) bases_mapped =
      (fst (vmm_host_irqext_dispose_mapping sim 15 (extern bases_mapped)),
       bases_mapped\<lparr>extern := snd (vmm_host_irqext_dispose_mapping sim 15 (extern bases_mapped))\<rparr>)"
    by (simp only:)
  have called: "calls (snd (vmm_host_irqext_dispose_mapping sim 15 (extern bases_mapped))) =
      [Zalloc, Zalloc, Zalloc, Create_mapping 15, Create_mapping 40, Dispose_mapping 15]"
    by (simp add: bases_mapped_eval sim_defs)
  show ?thesis
    by (rule conjI [OF live3 conjI [OF mapped conjI [OF refused conjI [OF live2
      conjI [OF live1 conjI [OF inside(1) conjI [OF inside(2) conjI [OF handed called]]]]]]]])
qed

section \<open>The hardware IRQ equal to the count\<close>

text \<open>
  C10. \<open>vmm_host_irqdomain_find_mapping\<close> and \<open>vmm_host_irqdomain_create_mapping\<close>
  refuse a hardware IRQ by its number only when \<open>hwirq > count\<close>. Every \<open>hwirq \<le> count\<close>
  passes the test, \<open>hwirq = count\<close> included: \<open>find_mapping\<close> returns \<open>base + hwirq\<close>
  when that host IRQ is live, and \<open>create_mapping\<close> on an unmapped one calls the
  allocator at \<open>base + hwirq\<close> and returns that number when the allocator succeeds. For
  \<open>hwirq = count\<close> in a domain with \<open>end = base + count\<close>, as \<open>add\<close> populates it, this
  host IRQ is \<open>end\<close> itself, which is not in the half-open range from \<open>base\<close> to \<open>end\<close>.
\<close>

theorem hwirq_equal_count_accepted:
  "(count d < hwirq \<longrightarrow>
      vmm_host_irqdomain_find_mapping E d hwirq x = - 1
      \<and> vmm_host_irqdomain_create_mapping E (Some d) hwirq x = (VMM_ENOTAVAIL E, x))
   \<and> (hwirq \<le> count d \<and> vmm_host_irq_get E (base d + hwirq) x \<noteq> None \<longrightarrow>
      vmm_host_irqdomain_find_mapping E d hwirq x = base d + hwirq)
   \<and> (hwirq \<le> count d \<and> vmm_host_irq_get E (base d + hwirq) x = None \<longrightarrow>
      vmm_host_irqdomain_create_mapping E (Some d) hwirq x =
        (if fst (vmm_host_irqext_create_mapping E (base d + hwirq) x) <s 0
         then fst (vmm_host_irqext_create_mapping E (base d + hwirq) x)
         else base d + hwirq,
         snd (vmm_host_irqext_create_mapping E (base d + hwirq) x)))
   \<and> (vmm_host_irq_get E (base d + count d) x = None \<longrightarrow>
      vmm_host_irqdomain_create_mapping E (Some d) (count d) x =
        (if fst (vmm_host_irqext_create_mapping E (base d + count d) x) <s 0
         then fst (vmm_host_irqext_create_mapping E (base d + count d) x)
         else base d + count d,
         snd (vmm_host_irqext_create_mapping E (base d + count d) x)))
   \<and> (end' d = base d + count d \<longrightarrow>
      base d + count d = end' d \<and> end' d \<notin> {base d..<end' d})"
proof -
  have minus_one: "\<not> 0 \<le>s (- 1 :: s32)"
    by (simp add: word_sle_eq)
  have unmapped: "vmm_host_irqdomain_create_mapping E (Some d) h x =
        (if fst (vmm_host_irqext_create_mapping E (base d + h) x) <s 0
         then fst (vmm_host_irqext_create_mapping E (base d + h) x)
         else base d + h,
         snd (vmm_host_irqext_create_mapping E (base d + h) x))"
    if "h \<le> count d" "vmm_host_irq_get E (base d + h) x = None" for h
    using that minus_one
    by (simp add: vmm_host_irqdomain_create_mapping_def vmm_host_irqdomain_find_mapping_def
        not_less [symmetric] split: prod.split)
  show ?thesis
  proof (intro conjI impI)
    assume "count d < hwirq"
    then show "vmm_host_irqdomain_find_mapping E d hwirq x = - 1"
      and "vmm_host_irqdomain_create_mapping E (Some d) hwirq x = (VMM_ENOTAVAIL E, x)"
      by (simp_all add: vmm_host_irqdomain_find_mapping_def vmm_host_irqdomain_create_mapping_def)
  next
    assume "hwirq \<le> count d \<and> vmm_host_irq_get E (base d + hwirq) x \<noteq> None"
    then show "vmm_host_irqdomain_find_mapping E d hwirq x = base d + hwirq"
      by (auto simp add: vmm_host_irqdomain_find_mapping_def)
  next
    assume "hwirq \<le> count d \<and> vmm_host_irq_get E (base d + hwirq) x = None"
    then show "vmm_host_irqdomain_create_mapping E (Some d) hwirq x =
        (if fst (vmm_host_irqext_create_mapping E (base d + hwirq) x) <s 0
         then fst (vmm_host_irqext_create_mapping E (base d + hwirq) x)
         else base d + hwirq,
         snd (vmm_host_irqext_create_mapping E (base d + hwirq) x))"
      using unmapped [of hwirq] by simp
  next
    assume "vmm_host_irq_get E (base d + count d) x = None"
    then show "vmm_host_irqdomain_create_mapping E (Some d) (count d) x =
        (if fst (vmm_host_irqext_create_mapping E (base d + count d) x) <s 0
         then fst (vmm_host_irqext_create_mapping E (base d + count d) x)
         else base d + count d,
         snd (vmm_host_irqext_create_mapping E (base d + count d) x))"
      using unmapped [of "count d"] by simp
  next
    assume "end' d = base d + count d"
    then show "base d + count d = end' d"
      by simp
  next
    show "end' d \<notin> {base d..<end' d}"
      by simp
  qed
qed

text \<open>
  C10, on the simulated platform: in the domain of base 100 and count 8, hardware IRQ 9 is
  refused, and hardware IRQ 8 creates a mapping at host IRQ 108, the end of the domain,
  which \<open>find_mapping\<close> then reports.
\<close>

theorem hwirq_equal_count_accepted_witness:
  "count (populate None 100 8 None None) < 9
   \<and> vmm_host_irqdomain_create_mapping sim (Some (populate None 100 8 None None)) 9 boot =
       (- 3, boot)
   \<and> vmm_host_irq_get sim
       (base (populate None 100 8 None None) + count (populate None 100 8 None None)) boot = None
   \<and> vmm_host_irqdomain_create_mapping sim (Some (populate None 100 8 None None))
       (count (populate None 100 8 None None)) boot =
       (108, boot\<lparr>irqs := [108], calls := [Create_mapping 108]\<rparr>)
   \<and> end' (populate None 100 8 None None) =
       base (populate None 100 8 None None) + count (populate None 100 8 None None)
   \<and> end' (populate None 100 8 None None) = 108
   \<and> (108 :: u32) \<notin> {base (populate None 100 8 None None)..<end' (populate None 100 8 None None)}
   \<and> vmm_host_irq_get sim 108 (boot\<lparr>irqs := [108], calls := [Create_mapping 108]\<rparr>) \<noteq> None
   \<and> vmm_host_irqdomain_find_mapping sim (populate None 100 8 None None)
       (count (populate None 100 8 None None))
       (boot\<lparr>irqs := [108], calls := [Create_mapping 108]\<rparr>) = 108"
proof -
  let ?d = "populate None 100 8 None None"
  let ?x = "boot\<lparr>irqs := [108], calls := [Create_mapping 108]\<rparr>"
  have d: "base ?d = 100" "count ?d = 8" "end' ?d = 108"
    by (simp_all add: populate_def)
  have e: "VMM_ENOTAVAIL sim = - 3" "vmm_host_irq_get sim 108 boot = None"
    "vmm_host_irq_get sim 108 ?x \<noteq> None"
    "vmm_host_irqext_create_mapping sim 108 boot = (108, ?x)"
    by (simp_all add: sim_defs word_sless_alt)
  have "vmm_host_irqdomain_create_mapping sim (Some ?d) 9 boot = (- 3, boot)"
    using hwirq_equal_count_accepted [of ?d 9 sim boot] d e by simp
  moreover have "vmm_host_irqdomain_create_mapping sim (Some ?d) (count ?d) boot = (108, ?x)"
    using hwirq_equal_count_accepted [of ?d 9 sim boot] d e by (simp add: word_sless_alt)
  moreover have "vmm_host_irqdomain_find_mapping sim ?d (count ?d) ?x = 108"
    using hwirq_equal_count_accepted [of ?d 8 sim ?x] d e by simp
  ultimately show ?thesis
    using d e by simp
qed


end
